theory Spec2Isabelle
  imports Complex_Main "HOL-Library.Word" "HOL-Library.Multiset"
begin

section \<open>The crawl engine of dream-crawler (go-backend/cmd/crawler/main.go)\<close>

text \<open>
  A shallow embedding of the crawler: the annotation functions, link extraction, the
  fetch-and-parse function, the worker loop as a transition system over the shared state,
  and the producer stage.

  Conventions.
  \<^item> A Go string is a byte sequence, here a \<open>string\<close>; \<open>len\<close> is \<open>length\<close> (bytes).
    The functions of package \<open>strings\<close> that work on bytes (\<open>Trim\<close> with an ASCII
    cutset, \<open>HasPrefix\<close>, \<open>Contains\<close>, \<open>Count\<close> and \<open>Split\<close> with a non-empty
    argument, \<open>Join\<close>) are defined here. Those that depend on Unicode tables
    (\<open>ToLower\<close>, \<open>TrimSpace\<close>, \<open>Fields\<close>) are parameters, like the functions of the
    other packages.
  \<^item> \<open>float64\<close> values are embedded as \<open>real\<close> numbers and their arithmetic as exact
    arithmetic; no statement below depends on rounding.
  \<^item> Functions of other packages (strings, net/url, goquery, regexp, time, crypto/md5,
    encoding/json, fmt's float formatting) and the order in which the Go runtime ranges
    over a map are parameters, collected in the record \<open>lib\<close>. Every statement that
    mentions \<open>lib\<close> holds for whatever these functions return.
  \<^item> The crawl depth is a Go \<open>int\<close>, embedded as a 64-bit word read as two's complement
    (the size of \<open>int\<close> on a 64-bit platform). Priorities, positions and lengths stay far
    from the range of \<open>int\<close> and are integers.
  \<^item> A panic is the result \<open>None\<close>. Log output is not part of the embedding.
\<close>

subsection \<open>Package strings\<close>

definition trim_by :: "(char \<Rightarrow> bool) \<Rightarrow> string \<Rightarrow> string" where
  "trim_by P s = rev (dropWhile P (rev (dropWhile P s)))"

definition strings_Trim :: "string \<Rightarrow> string \<Rightarrow> string" where
  "strings_Trim s cutset = trim_by (\<lambda>c. c \<in> set cutset) s"

definition strings_HasPrefix :: "string \<Rightarrow> string \<Rightarrow> bool" where
  "strings_HasPrefix s p \<longleftrightarrow> take (length p) s = p"

primrec strings_Contains :: "string \<Rightarrow> string \<Rightarrow> bool" where
  "strings_Contains [] sub = (sub = [])"
| "strings_Contains (c # cs) sub = (strings_HasPrefix (c # cs) sub \<or> strings_Contains cs sub)"

text \<open>
  \<open>strings.Count\<close> and \<open>strings.Split\<close> work on bytes when their second argument is not
  empty, as it is at every call of the program. For an empty argument Go counts and splits
  by UTF-8 sequences; the equations for that case are right on ASCII text.
\<close>

function strings_Count :: "string \<Rightarrow> string \<Rightarrow> nat" where
  "strings_Count s sub =
     (if sub = [] then length s + 1
      else if length s < length sub then 0
      else if strings_HasPrefix s sub then 1 + strings_Count (drop (length sub) s) sub
      else strings_Count (tl s) sub)"
  by pat_completeness auto
termination
  apply (relation "measure (\<lambda>(s, sub). length s)")
    apply simp
   apply (case_tac sub; case_tac s; simp)
  apply (case_tac sub; case_tac s; simp)
  done

declare strings_Count.simps [simp del]

function split_from :: "string \<Rightarrow> string \<Rightarrow> string \<Rightarrow> string list" where
  "split_from cur s sep =
     (if s = [] then [cur]
      else if strings_HasPrefix s sep then cur # split_from [] (drop (length sep) s) sep
      else split_from (cur @ [hd s]) (tl s) sep)"
  if "sep \<noteq> []"
| "split_from cur s [] = map (\<lambda>c. [c]) s"
  by (auto, metis)
termination
  apply (relation "measure (\<lambda>(cur, s, sep). length s)")
    apply simp
   apply (case_tac sep; case_tac s; simp)
  apply (case_tac s; simp)
  done

declare split_from.simps [simp del]

definition strings_Split :: "string \<Rightarrow> string \<Rightarrow> string list" where
  "strings_Split s sep = split_from [] s sep"

fun strings_Join :: "string list \<Rightarrow> string \<Rightarrow> string" where
  "strings_Join [] sep = []"
| "strings_Join [x] sep = x"
| "strings_Join (x # y # ys) sep = x @ sep @ strings_Join (y # ys) sep"

text \<open>\<open>%d\<close> of a non-negative counter.\<close>

fun itoa :: "nat \<Rightarrow> string" where
  "itoa n =
     (if n < 10 then [''0123456789'' ! n]
      else itoa (n div 10) @ [''0123456789'' ! (n mod 10)])"

declare itoa.simps [simp del]

subsection \<open>The data model\<close>

type_synonym float64 = real

text \<open>
  A \<open>time.Time\<close>: the instant in seconds since 1970 and the offset of its zone in seconds
  east of UTC. The zero value is January 1 of year 1, UTC.
\<close>

record Time =
  t_unix :: int
  t_offset :: int

definition zero_Time :: Time where
  "zero_Time = \<lparr>t_unix = - 62135596800, t_offset = 0\<rparr>"

record DocumentMetadata =
  meta_Domain :: string
  meta_Language :: string
  meta_WordCount :: int
  meta_Author :: string
  meta_PublishedAt :: "Time option"
  meta_Tags :: "string list"
  meta_Category :: string
  meta_Headers :: "string \<rightharpoonup> string"
  meta_ContentType :: string
  meta_Size :: int

record ContentChunk =
  chunk_ID :: string
  chunk_Type :: string
  chunk_Text :: string
  chunk_Position :: int
  chunk_Confidence :: float64
  chunk_Keywords :: "string list"
  chunk_Sentiment :: string
  chunk_Entities :: "string list"

record ExtractedLink =
  link_URL :: string
  link_Text :: string
  link_Type :: string
  link_Context :: string
  link_Priority :: int

record MediaAsset =
  media_URL :: string
  media_Type :: string
  media_Alt :: string
  media_Caption :: string
  media_Size :: string
  media_Format :: string

record DreamingHints =
  Emotions :: "string list"
  Themes :: "string list"
  Motifs :: "string list"
  Tone :: string
  Complexity :: float64
  Surrealism :: float64
  VisualCues :: "string list"
  AudioCues :: "string list"
  ColorPalette :: "string list"
  Abstractness :: float64

record Document =
  doc_URL :: string
  doc_Title :: string
  doc_Text :: string
  doc_CleanText :: string
  doc_FetchedAt :: Time
  doc_Status :: int
  doc_ContentHash :: string
  doc_Metadata :: DocumentMetadata
  doc_Chunks :: "ContentChunk list"
  doc_Links :: "ExtractedLink list"
  doc_Media :: "MediaAsset list"
  doc_DreamHints :: DreamingHints

text \<open>The zero values of the structs, as Go's \<open>Document{}\<close> and omitted fields give them.\<close>

definition zero_DocumentMetadata :: DocumentMetadata where
  "zero_DocumentMetadata =
     \<lparr>meta_Domain = [], meta_Language = [], meta_WordCount = 0, meta_Author = [],
      meta_PublishedAt = None, meta_Tags = [], meta_Category = [], meta_Headers = Map.empty,
      meta_ContentType = [], meta_Size = 0\<rparr>"

definition zero_DreamingHints :: DreamingHints where
  "zero_DreamingHints =
     \<lparr>Emotions = [], Themes = [], Motifs = [], Tone = [], Complexity = 0, Surrealism = 0,
      VisualCues = [], AudioCues = [], ColorPalette = [], Abstractness = 0\<rparr>"

definition zero_Document :: Document where
  "zero_Document =
     \<lparr>doc_URL = [], doc_Title = [], doc_Text = [], doc_CleanText = [],
      doc_FetchedAt = zero_Time,
      doc_Status = 0, doc_ContentHash = [], doc_Metadata = zero_DocumentMetadata,
      doc_Chunks = [], doc_Links = [], doc_Media = [], doc_DreamHints = zero_DreamingHints\<rparr>"

subsection \<open>The parsed page and the library functions\<close>

text \<open>
  A \<open>goquery.Document\<close> is embedded by what the selectors of the program return on it, in
  document order. An attribute is \<open>None\<close> when the element does not carry it.
  \<open>extractText\<close> changes the document it is given: it removes elements, with all they
  contain. \<open>goquery_Remove lib selector d\<close> is the document that
  \<open>d.Find(selector).Remove()\<close> leaves.
\<close>

record anchor =
  a_href :: "string option"
  a_text :: string

record img =
  img_src :: "string option"
  img_alt :: string

record page =
  find_title :: string
  find_main :: "string list"
  find_body :: string
  find_meta_author :: "string option list"
  find_meta_date :: "string option list"
  find_meta_keywords :: "string option list"
  find_meta_category :: "string option list"
  find_html_lang :: "string option"
  find_headings :: "string list"
  find_p :: "string list"
  find_quotes :: "string list"
  find_a_href :: "anchor list"
  find_img :: "img list"
  find_video :: "string option list"

text \<open>
  A parsed \<open>*url.URL\<close>: the fields the program reads, and the result of \<open>String()\<close>.
\<close>

record URL =
  url_Scheme :: string
  url_Host :: string
  url_Path :: string
  url_String :: string

text \<open>
  \<open>base.Parse(href)\<close> on a nil \<open>base\<close> returns an error when \<open>href\<close> does not parse,
  returns the reference itself when it is absolute, and dereferences nil otherwise.
\<close>

datatype ref_result = RefPanic | RefErr | RefOk URL

record lib =
  strings_ToLower :: "string \<Rightarrow> string"
  strings_TrimSpace :: "string \<Rightarrow> string"
  strings_Fields :: "string \<Rightarrow> string list"
  url_Parse :: "string \<Rightarrow> URL option"
  url_Parse_ref :: "URL \<Rightarrow> string \<Rightarrow> URL option"
  url_Parse_ref_nil :: "string \<Rightarrow> ref_result"
  goquery_NewDocument :: "string \<Rightarrow> page option"
  goquery_Remove :: "string \<Rightarrow> page \<Rightarrow> page"
  time_Parse_RFC3339 :: "string \<Rightarrow> Time option"
  md5_hex :: "string \<Rightarrow> string"
  regexp_FindAllString :: "string \<Rightarrow> string \<Rightarrow> string list"
  json_Marshal :: "Document \<Rightarrow> string option"
  fmt_2f :: "float64 \<Rightarrow> string"
  map_range :: "(string \<times> int) list \<Rightarrow> (string \<times> int) list"

text \<open>
  A \<open>map[string]int\<close> is an association list with distinct keys. \<open>for k, v := range m\<close>
  visits the entries in the order \<open>map_range lib m\<close>, which the Go runtime chooses anew at
  every loop: any permutation of the entries.
\<close>

definition go_range_ok :: "lib \<Rightarrow> bool" where
  "go_range_ok lib \<longleftrightarrow> (\<forall>m. mset (map_range lib m) = mset m)"

fun map_incr :: "(string \<times> int) list \<Rightarrow> string \<Rightarrow> (string \<times> int) list" where
  "map_incr [] k = [(k, 1)]"
| "map_incr ((k', n) # m) k = (if k' = k then (k', n + 1) # m else (k', n) # map_incr m k)"

definition base_Parse :: "lib \<Rightarrow> URL option \<Rightarrow> string \<Rightarrow> ref_result" where
  "base_Parse lib base href =
     (case base of
        None \<Rightarrow> url_Parse_ref_nil lib href
      | Some b \<Rightarrow> (case url_Parse_ref lib b href of None \<Rightarrow> RefErr | Some u \<Rightarrow> RefOk u))"

text \<open>A \<open>Each\<close> loop whose callback may panic (\<open>None\<close>).\<close>

fun each_opt :: "('a \<Rightarrow> 's \<Rightarrow> 's option) \<Rightarrow> 'a list \<Rightarrow> 's \<Rightarrow> 's option" where
  "each_opt f [] st = Some st"
| "each_opt f (x # xs) st = (case f x st of None \<Rightarrow> None | Some st' \<Rightarrow> each_opt f xs st')"

subsection \<open>Helper functions for the dream hints\<close>

definition contains_any :: "string \<Rightarrow> string list \<Rightarrow> bool" where
  "contains_any text ws = list_ex (\<lambda>word. strings_Contains text word) ws"

definition detectEmotions :: "string \<Rightarrow> string list" where
  "detectEmotions text =
     (let positiveWords = [''amazing'', ''beautiful'', ''wonderful'', ''great'', ''love'',
                           ''happy'', ''joy'', ''success''];
          negativeWords = [''terrible'', ''awful'', ''hate'', ''sad'', ''fear'', ''anger'',
                           ''pain'', ''failure''];
          mysticalWords = [''mystery'', ''magic'', ''dream'', ''vision'', ''spirit'', ''soul'',
                           ''ethereal'', ''cosmic''];
          emotions = (if contains_any text positiveWords then [''positive''] else [])
                   @ (if contains_any text negativeWords then [''dark''] else [])
                   @ (if contains_any text mysticalWords then [''mystical''] else [])
      in if length emotions = 0 then emotions @ [''neutral''] else emotions)"

definition detectThemes :: "string \<Rightarrow> string list" where
  "detectThemes text =
     (let techWords = [''technology'', ''ai'', ''computer'', ''digital'', ''software'',
                       ''algorithm''];
          artWords = [''art'', ''creative'', ''design'', ''visual'', ''aesthetic'', ''beauty''];
          scienceWords = [''science'', ''research'', ''discovery'', ''experiment'', ''analysis'']
      in (if contains_any text techWords then [''technology''] else [])
       @ (if contains_any text artWords then [''creative''] else [])
       @ (if contains_any text scienceWords then [''scientific''] else []))"

definition extractVisualMotifs :: "string \<Rightarrow> string list" where
  "extractVisualMotifs text =
     (let visualWords = [''light'', ''shadow'', ''color'', ''bright'', ''dark'', ''crystal'',
                         ''liquid'', ''flowing'', ''geometric'', ''organic'']
      in filter (\<lambda>word. strings_Contains text word) visualWords)"

definition extractVisualCues :: "string \<Rightarrow> string list" where
  "extractVisualCues text = [''ethereal lighting'', ''flowing forms'', ''crystalline structures'']"

definition extractAudioCues :: "string \<Rightarrow> string list" where
  "extractAudioCues text = [''ambient whispers'', ''digital harmonics'', ''pulsing rhythms'']"

definition extractColors :: "string \<Rightarrow> string list" where
  "extractColors text =
     (let colorWords = [''red'', ''blue'', ''green'', ''yellow'', ''purple'', ''orange'',
                        ''pink'', ''white'', ''black'', ''gold'', ''silver'']
      in filter (\<lambda>color. strings_Contains text color) colorWords)"

definition minf :: "float64 \<Rightarrow> float64 \<Rightarrow> float64" where
  "minf a b = (if a < b then a else b)"

definition maxi :: "int \<Rightarrow> int \<Rightarrow> int" where
  "maxi a b = (if a > b then a else b)"

definition calculateComplexity :: "Document \<Rightarrow> float64" where
  "calculateComplexity doc =
     (let complexity = real_of_int (meta_WordCount (doc_Metadata doc)) / 1000;
          complexity = complexity + real (length (doc_Chunks doc)) / 10;
          complexity = complexity + real (length (doc_Media doc)) / 5
      in minf 1 complexity)"

definition calculateSurrealismPotential :: "Document \<Rightarrow> DreamingHints \<Rightarrow> float64" where
  "calculateSurrealismPotential doc hints =
     (let score = 0;
          score = (if length (Emotions hints) > 1 then score + 0.3 else score);
          score = fold (\<lambda>emotion sc. if emotion = ''mystical'' then sc + 0.4 else sc)
                    (Emotions hints) score;
          score = fold (\<lambda>theme sc. if theme = ''creative'' then sc + 0.3 else sc)
                    (Themes hints) score;
          score = score + real (length (Motifs hints)) * 0.05;
          score = score + Complexity hints * 0.2
      in minf 1 score)"

definition calculateAbstractness :: "string \<Rightarrow> DreamingHints \<Rightarrow> float64" where
  "calculateAbstractness text hints =
     (let abstractWords = [''concept'', ''idea'', ''essence'', ''meaning'', ''philosophy'',
                           ''abstract'', ''theory'', ''metaphor''];
          score = fold (\<lambda>word sc. if strings_Contains text word then sc + 0.1 else sc)
                    abstractWords 0;
          score = score + real (length (Emotions hints)) * 0.05
      in minf 1 score)"

definition count_contained :: "string \<Rightarrow> string list \<Rightarrow> nat" where
  "count_contained text ws = length (filter (\<lambda>word. strings_Contains text word) ws)"

definition detectTone :: "string \<Rightarrow> string" where
  "detectTone text =
     (let formalWords = [''therefore'', ''furthermore'', ''consequently'', ''analysis'',
                         ''research''];
          casualWords = [''really'', ''pretty'', ''quite'', ''basically'', ''actually''];
          dramaticWords = [''incredible'', ''amazing'', ''shocking'', ''revolutionary'',
                           ''breakthrough''];
          formalCount = count_contained text formalWords;
          casualCount = count_contained text casualWords;
          dramaticCount = count_contained text dramaticWords
      in if dramaticCount > formalCount \<and> dramaticCount > casualCount then ''dramatic''
         else if formalCount > casualCount then ''formal''
         else if casualCount > 0 then ''casual''
         else ''neutral'')"

definition generateDreamHints :: "lib \<Rightarrow> Document \<Rightarrow> DreamingHints" where
  "generateDreamHints lib doc =
     (let text = strings_ToLower lib (doc_CleanText doc @ '' '' @ doc_Title doc);
          hints = \<lparr>Emotions = detectEmotions text,
                   Themes = detectThemes text,
                   Motifs = extractVisualMotifs text,
                   Tone = detectTone text,
                   Complexity = 0,
                   Surrealism = 0,
                   VisualCues = extractVisualCues text,
                   AudioCues = extractAudioCues text,
                   ColorPalette = extractColors text,
                   Abstractness = 0\<rparr>;
          hints = hints\<lparr>Complexity := calculateComplexity doc\<rparr>;
          hints = hints\<lparr>Surrealism := calculateSurrealismPotential doc hints\<rparr>;
          hints = hints\<lparr>Abstractness := calculateAbstractness text hints\<rparr>
      in hints)"

subsection \<open>Chunk annotators\<close>

definition stopWords :: "string \<Rightarrow> bool" where
  "stopWords w \<longleftrightarrow> w \<in> set
     [''the'', ''a'', ''an'', ''and'', ''or'', ''but'',
      ''in'', ''on'', ''at'', ''to'', ''for'', ''of'',
      ''with'', ''by'', ''is'', ''are'', ''was'', ''were'',
      ''be'', ''been'', ''have'', ''has'', ''had'', ''do'',
      ''does'', ''did'', ''will'', ''would'', ''could'', ''should'',
      ''this'', ''that'', ''these'', ''those'', ''i'', ''you'',
      ''he'', ''she'', ''it'', ''we'', ''they'']"

definition count_word :: "string \<Rightarrow> (string \<times> int) list \<Rightarrow> (string \<times> int) list" where
  "count_word word wordCount =
     (let word = strings_Trim word ''.,!?;:''
      in if length word > 3 \<and> \<not> stopWords word then map_incr wordCount word else wordCount)"

fun keywords_loop :: "string list \<Rightarrow> (string \<times> int) list \<Rightarrow> string list" where
  "keywords_loop keywords [] = keywords"
| "keywords_loop keywords ((word, cnt) # rest) =
     (let keywords = (if cnt \<ge> 2 \<or> length word > 6 then keywords @ [word] else keywords)
      in if length keywords \<ge> 10 then keywords else keywords_loop keywords rest)"

definition wordCount_of :: "lib \<Rightarrow> string \<Rightarrow> (string \<times> int) list" where
  "wordCount_of lib text =
     fold count_word (strings_Fields lib (strings_ToLower lib text)) []"

definition extractKeywords :: "lib \<Rightarrow> string \<Rightarrow> string list" where
  "extractKeywords lib text = keywords_loop [] (map_range lib (wordCount_of lib text))"

definition count_all :: "lib \<Rightarrow> string \<Rightarrow> string list \<Rightarrow> nat" where
  "count_all lib text ws =
     sum_list (map (\<lambda>word. strings_Count (strings_ToLower lib text) word) ws)"

definition detectSentiment :: "lib \<Rightarrow> string \<Rightarrow> string" where
  "detectSentiment lib text =
     (let positiveWords = [''good'', ''great'', ''excellent'', ''amazing'', ''wonderful'',
                           ''love'', ''best''];
          negativeWords = [''bad'', ''terrible'', ''awful'', ''hate'', ''worst'', ''horrible''];
          positiveCount = count_all lib text positiveWords;
          negativeCount = count_all lib text negativeWords
      in if positiveCount > negativeCount then ''positive''
         else if negativeCount > positiveCount then ''negative''
         else ''neutral'')"

definition entity_pattern :: string where
  "entity_pattern = [CHR 0x5C] @ ''b[A-Z][a-z]+(?:'' @ [CHR 0x5C] @ ''s+[A-Z][a-z]+)*''
                    @ [CHR 0x5C] @ ''b''"

fun entities_loop :: "string list \<Rightarrow> string set \<Rightarrow> string list \<Rightarrow> string list" where
  "entities_loop entities seen [] = entities"
| "entities_loop entities seen (match # rest) =
     (let (entities, seen) =
            (if length match > 3 \<and> match \<notin> seen then (entities @ [match], insert match seen)
             else (entities, seen))
      in if length entities \<ge> 5 then entities else entities_loop entities seen rest)"

definition extractEntities :: "lib \<Rightarrow> string \<Rightarrow> string list" where
  "extractEntities lib text = entities_loop [] {} (regexp_FindAllString lib entity_pattern text)"

subsection \<open>Content chunks\<close>

definition headline_each :: "lib \<Rightarrow> string \<Rightarrow> ContentChunk list \<times> nat \<Rightarrow> ContentChunk list \<times> nat" where
  "headline_each lib s = (\<lambda>(chunks, chunkID).
     (let text = strings_TrimSpace lib s
      in if text \<noteq> [] \<and> length text > 5
         then (chunks @ [\<lparr>chunk_ID = ''h_'' @ itoa chunkID, chunk_Type = ''headline'',
                          chunk_Text = text, chunk_Position = int chunkID,
                          chunk_Confidence = 0.9, chunk_Keywords = extractKeywords lib text,
                          chunk_Sentiment = [], chunk_Entities = []\<rparr>], chunkID + 1)
         else (chunks, chunkID)))"

definition paragraph_each :: "lib \<Rightarrow> string \<Rightarrow> ContentChunk list \<times> nat \<Rightarrow> ContentChunk list \<times> nat" where
  "paragraph_each lib s = (\<lambda>(chunks, chunkID).
     (let text = strings_TrimSpace lib s
      in if text \<noteq> [] \<and> length text > 20
         then (chunks @ [\<lparr>chunk_ID = ''p_'' @ itoa chunkID, chunk_Type = ''paragraph'',
                          chunk_Text = text, chunk_Position = int chunkID,
                          chunk_Confidence = 0.8, chunk_Keywords = extractKeywords lib text,
                          chunk_Sentiment = detectSentiment lib text,
                          chunk_Entities = extractEntities lib text\<rparr>], chunkID + 1)
         else (chunks, chunkID)))"

definition quote_each :: "lib \<Rightarrow> string \<Rightarrow> ContentChunk list \<times> nat \<Rightarrow> ContentChunk list \<times> nat" where
  "quote_each lib s = (\<lambda>(chunks, chunkID).
     (let text = strings_TrimSpace lib s
      in if text \<noteq> []
         then (chunks @ [\<lparr>chunk_ID = ''q_'' @ itoa chunkID, chunk_Type = ''quote'',
                          chunk_Text = text, chunk_Position = int chunkID,
                          chunk_Confidence = 0.85, chunk_Keywords = extractKeywords lib text,
                          chunk_Sentiment = detectSentiment lib text,
                          chunk_Entities = []\<rparr>], chunkID + 1)
         else (chunks, chunkID)))"

definition extractContentChunks :: "lib \<Rightarrow> page \<Rightarrow> string \<Rightarrow> ContentChunk list" where
  "extractContentChunks lib doc cleanText =
     (let st = ([], 0);
          st = fold (headline_each lib) (find_headings doc) st;
          st = fold (paragraph_each lib) (find_p doc) st;
          st = fold (quote_each lib) (find_quotes doc) st
      in fst st)"

subsection \<open>Links and media\<close>

type_synonym go_int = "64 word"

text \<open>
  The callback of \<open>extractLinksWithPriority\<close>, in two parts: \<open>new_link\<close> is the link it
  builds once the guards have passed (from \<open>linkText := ...\<close> on), \<open>link_each\<close> the guards
  and the \<open>append\<close>.
\<close>

definition new_link :: "lib \<Rightarrow> URL \<Rightarrow> go_int \<Rightarrow> anchor \<Rightarrow> URL \<Rightarrow> ExtractedLink" where
  "new_link lib base currentDepth s resolvedURL =
     (let linkText = strings_TrimSpace lib (a_text s);
          (linkType, priority) =
            (if url_Host resolvedURL = url_Host base then (''internal'', 3)
             else (''external'', 1));
          priority =
            (if strings_Contains (strings_ToLower lib linkText) ''article''
                \<or> strings_Contains (strings_ToLower lib linkText) ''news''
                \<or> strings_Contains (strings_ToLower lib linkText) ''blog''
             then priority + 2 else priority);
          priority = (if 2 \<le>s currentDepth then maxi 1 (priority - 1) else priority)
      in \<lparr>link_URL = url_String resolvedURL, link_Text = linkText, link_Type = linkType,
          link_Context = [], link_Priority = priority\<rparr>)"

definition link_each ::
  "lib \<Rightarrow> URL option \<Rightarrow> go_int \<Rightarrow> anchor \<Rightarrow> ExtractedLink list \<Rightarrow> ExtractedLink list option"
where
  "link_each lib base currentDepth s links =
     (case a_href s of
        None \<Rightarrow> Some links
      | Some href \<Rightarrow>
          if length href < 2 \<or> strings_HasPrefix href ''#'' then Some links
          else
            (case base_Parse lib base href of
               RefPanic \<Rightarrow> None
             | RefErr \<Rightarrow> Some links
             | RefOk resolvedURL \<Rightarrow>
                 if url_Scheme resolvedURL \<noteq> ''http'' \<and> url_Scheme resolvedURL \<noteq> ''https''
                 then Some links
                 else
                   (case base of
                      None \<Rightarrow> None
                    | Some b \<Rightarrow> Some (links @ [new_link lib b currentDepth s resolvedURL]))))"

definition extractLinksWithPriority ::
  "lib \<Rightarrow> page \<Rightarrow> string \<Rightarrow> go_int \<Rightarrow> ExtractedLink list option"
where
  "extractLinksWithPriority lib doc baseURL currentDepth =
     each_opt (link_each lib (url_Parse lib baseURL) currentDepth) (find_a_href doc) []"

definition getFileExtension :: "string \<Rightarrow> string" where
  "getFileExtension filename =
     (let parts = strings_Split filename ''.''
      in if length parts > 1 then parts ! (length parts - 1) else [])"

definition img_each :: "lib \<Rightarrow> URL option \<Rightarrow> img \<Rightarrow> MediaAsset list \<Rightarrow> MediaAsset list option" where
  "img_each lib base s media =
     (case img_src s of
        None \<Rightarrow> Some media
      | Some src \<Rightarrow>
          (case base_Parse lib base src of
             RefPanic \<Rightarrow> None
           | RefErr \<Rightarrow> Some media
           | RefOk resolvedURL \<Rightarrow>
               Some (media @ [\<lparr>media_URL = url_String resolvedURL, media_Type = ''image'',
                                media_Alt = img_alt s, media_Caption = [], media_Size = [],
                                media_Format = getFileExtension src\<rparr>])))"

definition video_each ::
  "lib \<Rightarrow> URL option \<Rightarrow> string option \<Rightarrow> MediaAsset list \<Rightarrow> MediaAsset list option"
where
  "video_each lib base s media =
     (case s of
        None \<Rightarrow> Some media
      | Some src \<Rightarrow>
          (case base_Parse lib base src of
             RefPanic \<Rightarrow> None
           | RefErr \<Rightarrow> Some media
           | RefOk resolvedURL \<Rightarrow>
               Some (media @ [\<lparr>media_URL = url_String resolvedURL, media_Type = ''video'',
                                media_Alt = [], media_Caption = [], media_Size = [],
                                media_Format = getFileExtension src\<rparr>])))"

definition extractMediaAssets :: "lib \<Rightarrow> page \<Rightarrow> string \<Rightarrow> MediaAsset list option" where
  "extractMediaAssets lib doc baseURL =
     (let base = url_Parse lib baseURL
      in case each_opt (img_each lib base) (find_img doc) [] of
           None \<Rightarrow> None
         | Some media \<Rightarrow> each_opt (video_each lib base) (find_video doc) media)"

subsection \<open>Metadata and text\<close>

definition author_each :: "lib \<Rightarrow> string option \<Rightarrow> DocumentMetadata \<Rightarrow> DocumentMetadata" where
  "author_each lib s metadata =
     (case s of
        Some content \<Rightarrow>
          if meta_Author metadata = [] then metadata\<lparr>meta_Author := strings_TrimSpace lib content\<rparr>
          else metadata
      | None \<Rightarrow> metadata)"

definition date_each :: "lib \<Rightarrow> string option \<Rightarrow> DocumentMetadata \<Rightarrow> DocumentMetadata" where
  "date_each lib s metadata =
     (case s of
        Some content \<Rightarrow>
          (case time_Parse_RFC3339 lib content of
             Some publishedAt \<Rightarrow> metadata\<lparr>meta_PublishedAt := Some publishedAt\<rparr>
           | None \<Rightarrow> metadata)
      | None \<Rightarrow> metadata)"

definition tag_loop :: "lib \<Rightarrow> string \<Rightarrow> DocumentMetadata \<Rightarrow> DocumentMetadata" where
  "tag_loop lib tag metadata =
     (let tag = strings_TrimSpace lib tag
      in if tag \<noteq> [] then metadata\<lparr>meta_Tags := meta_Tags metadata @ [tag]\<rparr> else metadata)"

definition keywords_each :: "lib \<Rightarrow> string option \<Rightarrow> DocumentMetadata \<Rightarrow> DocumentMetadata" where
  "keywords_each lib s metadata =
     (case s of
        Some content \<Rightarrow> fold (tag_loop lib) (strings_Split content '','') metadata
      | None \<Rightarrow> metadata)"

definition category_each :: "lib \<Rightarrow> string option \<Rightarrow> DocumentMetadata \<Rightarrow> DocumentMetadata" where
  "category_each lib s metadata =
     (case s of
        Some content \<Rightarrow>
          if meta_Category metadata = []
          then metadata\<lparr>meta_Category := strings_TrimSpace lib content\<rparr>
          else metadata
      | None \<Rightarrow> metadata)"

definition extractMetadata :: "lib \<Rightarrow> page \<Rightarrow> DocumentMetadata \<Rightarrow> DocumentMetadata" where
  "extractMetadata lib doc metadata =
     (let metadata = fold (author_each lib) (find_meta_author doc) metadata;
          metadata = fold (date_each lib) (find_meta_date doc) metadata;
          metadata = fold (keywords_each lib) (find_meta_keywords doc) metadata;
          metadata = fold (category_each lib) (find_meta_category doc) metadata
      in case find_html_lang doc of
           Some lang \<Rightarrow> metadata\<lparr>meta_Language := lang\<rparr>
         | None \<Rightarrow> metadata)"

definition main_each :: "lib \<Rightarrow> string \<Rightarrow> string list \<Rightarrow> string list" where
  "main_each lib s textParts =
     (let text = strings_TrimSpace lib s
      in if length text > 50 then textParts @ [text] else textParts)"

text \<open>
  \<open>extractText\<close> returns the text and the document as its first statement leaves it.
\<close>

definition extractText :: "lib \<Rightarrow> page \<Rightarrow> string \<times> page" where
  "extractText lib d =
     (let d = goquery_Remove lib
                (''script, style, noscript, nav, footer, header, aside, ''
                 @ ''.advertisement, .ad, .sidebar'') d;
          textParts =
            (if length (find_main d) > 0 then fold (main_each lib) (find_main d) []
             else (let text = strings_TrimSpace lib (find_body d)
                   in if text \<noteq> [] then [text] else []))
      in (strings_Join textParts [CHR 0x0A, CHR 0x0A], d))"

text \<open>
  The two regular expressions of \<open>cleanText\<close>: \<open>\s\<close> is \<open>[\t\n\f\r ]\<close> and \<open>\w\<close> is
  \<open>[0-9A-Za-z_]\<close> in Go's syntax. \<open>squeeze\<close> replaces every maximal run of \<open>\s\<close> by one
  space; its flag tells whether the previous byte belonged to the run.
\<close>

definition re_space :: "char \<Rightarrow> bool" where
  "re_space c \<longleftrightarrow> c \<in> set [CHR 0x09, CHR 0x0A, CHR 0x0C, CHR 0x0D, CHR '' '']"

definition re_word :: "char \<Rightarrow> bool" where
  "re_word c \<longleftrightarrow>
     c \<in> set ''0123456789ABCDEFGHIJKLMNOPQRSTUVWXYZ_abcdefghijklmnopqrstuvwxyz''"

fun squeeze :: "bool \<Rightarrow> string \<Rightarrow> string" where
  "squeeze in_run [] = []"
| "squeeze in_run (c # cs) =
     (if re_space c then (if in_run then squeeze True cs else CHR '' '' # squeeze True cs)
      else c # squeeze False cs)"

definition cleanText :: "lib \<Rightarrow> string \<Rightarrow> string" where
  "cleanText lib text =
     (let cleaned = squeeze False text;
          cleaned = filter (\<lambda>c. re_word c \<or> re_space c
                                 \<or> c \<in> set (''.,!?;:()-'' @ [CHR 0x27, CHR 0x22])) cleaned
      in strings_TrimSpace lib cleaned)"

definition extractDomain :: "lib \<Rightarrow> string \<Rightarrow> string" where
  "extractDomain lib rawurl = (case url_Parse lib rawurl of None \<Rightarrow> [] | Some parsed \<Rightarrow> url_Host parsed)"

subsection \<open>Fetch and parse\<close>

record URLMetadata =
  depth :: go_int
  parent :: string
  priority :: int

record URLWithMetadata =
  um_URL :: string
  um_Metadata :: URLMetadata

record http_Response =
  resp_StatusCode :: int
  resp_Header :: "string \<rightharpoonup> string list"
  resp_ContentLength :: int
  resp_Body :: string

text \<open>
  What the network does with one GET: \<open>http.NewRequestWithContext\<close> fails, \<open>client.Do\<close>
  fails, or a response arrives. An error value names the call that returned it.
\<close>

datatype http_outcome = NewRequestFailed | DoFailed | Responded http_Response

datatype error = ErrNewRequest | ErrDo | ErrGoquery

definition Header_Get :: "(string \<rightharpoonup> string list) \<Rightarrow> string \<Rightarrow> string" where
  "Header_Get h key = (case h key of Some (v # vs) \<Rightarrow> v | _ \<Rightarrow> [])"

text \<open>
  The loop \<open>for key, values := range resp.Header\<close>: every key of the response header
  with at least one value is stored with its first value. The keys are distinct, so the
  order of the range does not matter.
\<close>

definition first_values :: "(string \<rightharpoonup> string list) \<Rightarrow> (string \<rightharpoonup> string)" where
  "first_values h = (\<lambda>key. case h key of Some (v # vs) \<Rightarrow> Some v | _ \<Rightarrow> None)"

text \<open>
  \<open>enhancedFetchAndParse\<close> returns \<open>None\<close> when it panics and otherwise the triple
  \<open>(Document, []ExtractedLink, error)\<close>, the error being \<open>None\<close> for \<open>nil\<close>. \<open>now\<close> is
  what \<open>time.Now()\<close> returns.
\<close>

definition enhancedFetchAndParse ::
  "lib \<Rightarrow> http_outcome \<Rightarrow> Time \<Rightarrow> string \<Rightarrow> URLMetadata
     \<Rightarrow> (Document \<times> ExtractedLink list \<times> error option) option"
where
  "enhancedFetchAndParse lib http now rawurl metadata =
     (case http of
        NewRequestFailed \<Rightarrow> Some (zero_Document, [], Some ErrNewRequest)
      | DoFailed \<Rightarrow> Some (zero_Document, [], Some ErrDo)
      | Responded resp \<Rightarrow>
          (let doc = zero_Document
                 \<lparr>doc_URL := rawurl,
                  doc_FetchedAt := now,
                  doc_Status := resp_StatusCode resp,
                  doc_Metadata := zero_DocumentMetadata
                    \<lparr>meta_Headers := Map.empty,
                     meta_ContentType := Header_Get (resp_Header resp) ''Content-Type'',
                     meta_Size := resp_ContentLength resp\<rparr>\<rparr>;
               doc = doc\<lparr>doc_Metadata :=
                       (doc_Metadata doc)\<lparr>meta_Headers := first_values (resp_Header resp)\<rparr>\<rparr>
           in if resp_StatusCode resp \<noteq> 200 then Some (doc, [], None)
              else
                (case goquery_NewDocument lib (resp_Body resp) of
                   None \<Rightarrow> Some (doc, [], Some ErrGoquery)
                 | Some gqDoc \<Rightarrow>
                     (let doc = doc\<lparr>doc_Title := strings_TrimSpace lib (find_title gqDoc)\<rparr>;
                          (text, gqDoc) = extractText lib gqDoc;
                          doc = doc\<lparr>doc_Text := text\<rparr>;
                          doc = doc\<lparr>doc_CleanText := cleanText lib (doc_Text doc)\<rparr>;
                          doc = doc\<lparr>doc_ContentHash := md5_hex lib (doc_CleanText doc)\<rparr>;
                          doc = doc\<lparr>doc_Metadata :=
                                  (doc_Metadata doc)\<lparr>meta_Domain := extractDomain lib rawurl\<rparr>\<rparr>;
                          doc = doc\<lparr>doc_Metadata :=
                                  (doc_Metadata doc)\<lparr>meta_WordCount :=
                                     int (length (strings_Fields lib (doc_CleanText doc)))\<rparr>\<rparr>;
                          doc = doc\<lparr>doc_Metadata := extractMetadata lib gqDoc (doc_Metadata doc)\<rparr>;
                          doc = doc\<lparr>doc_Chunks :=
                                  extractContentChunks lib gqDoc (doc_CleanText doc)\<rparr>
                      in case extractLinksWithPriority lib gqDoc rawurl (depth metadata) of
                           None \<Rightarrow> None
                         | Some links \<Rightarrow>
                             (case extractMediaAssets lib gqDoc rawurl of
                                None \<Rightarrow> None
                              | Some media \<Rightarrow>
                                  (let doc = doc\<lparr>doc_Media := media\<rparr>;
                                       doc = doc\<lparr>doc_DreamHints := generateDreamHints lib doc\<rparr>
                                   in Some (doc, links, None)))))))"

subsection \<open>Flags and the producer stage\<close>

record flags =
  workers :: nat
  queueSize :: nat
  timeoutSec :: int
  kafkaBroker :: string
  kafkaTopic :: string
  dreamTopic :: string
  maxDepth :: go_int
  enableDreaming :: bool
  domainWhitelist :: string

definition default_flags :: flags where
  "default_flags =
     \<lparr>workers = 10, queueSize = 1000, timeoutSec = 15, kafkaBroker = ''localhost:9092'',
      kafkaTopic = ''raw.content'', dreamTopic = ''dream.seeds'', maxDepth = 3,
      enableDreaming = True, domainWhitelist = []\<rparr>"

record kafka_Message =
  msg_Topic :: string
  msg_Partition :: int
  msg_Value :: string
  msg_Key :: string
  msg_Headers :: "(string \<times> string) list"

definition PartitionAny :: int where
  "PartitionAny = - 1"

definition raw_message :: "lib \<Rightarrow> flags \<Rightarrow> Document \<Rightarrow> string \<Rightarrow> kafka_Message" where
  "raw_message lib fl doc docBytes =
     \<lparr>msg_Topic = kafkaTopic fl, msg_Partition = PartitionAny, msg_Value = docBytes,
      msg_Key = doc_URL doc,
      msg_Headers = [(''content_type'', ''application/json''),
                     (''crawler_version'', ''dream-crawler-v1.0''),
                     (''surrealism_score'', fmt_2f lib (Surrealism (doc_DreamHints doc)))]\<rparr>"

definition dream_message :: "lib \<Rightarrow> flags \<Rightarrow> Document \<Rightarrow> string \<Rightarrow> kafka_Message" where
  "dream_message lib fl doc docBytes =
     \<lparr>msg_Topic = dreamTopic fl, msg_Partition = PartitionAny, msg_Value = docBytes,
      msg_Key = doc_URL doc,
      msg_Headers = [(''dream_ready'', ''true''),
                     (''surrealism_score'', fmt_2f lib (Surrealism (doc_DreamHints doc)))]\<rparr>"

text \<open>
  The body of the loop of \<open>enhancedProducer\<close>: the messages handed to \<open>producer.Produce\<close>
  for one document, in order. Log output is not part of the embedding.
\<close>

definition produce_each :: "lib \<Rightarrow> flags \<Rightarrow> Document \<Rightarrow> kafka_Message list" where
  "produce_each lib fl doc =
     (case json_Marshal lib doc of
        None \<Rightarrow> []
      | Some docBytes \<Rightarrow>
          [raw_message lib fl doc docBytes]
          @ (if Surrealism (doc_DreamHints doc) > 0.5 then [dream_message lib fl doc docBytes]
             else []))"

fun enhancedProducer :: "lib \<Rightarrow> flags \<Rightarrow> Document list \<Rightarrow> kafka_Message list" where
  "enhancedProducer lib fl [] = []"
| "enhancedProducer lib fl (doc # input) = produce_each lib fl doc @ enhancedProducer lib fl input"

text \<open>
  \<open>dreamProcessor\<close> loops over a \<open>select\<close>; the list gives the case each iteration takes.
  On a document it writes a log line when the surrealism exceeds 0.3 and the clean text is
  longer than 100 bytes, and sends the document on, unchanged, in either case.
\<close>

datatype 'a select = CtxDone | Received 'a

fun dreamProcessor :: "Document select list \<Rightarrow> Document list" where
  "dreamProcessor [] = []"
| "dreamProcessor (CtxDone # rest) = []"
| "dreamProcessor (Received doc # rest) = doc # dreamProcessor rest"

fun pass_through :: "Document list \<Rightarrow> Document list" where
  "pass_through [] = []"
| "pass_through (doc # rest) = doc # pass_through rest"

text \<open>
  The wiring of \<open>main\<close> between the workers and the producer. \<open>rawOut\<close> lists the documents
  the workers send; \<open>n\<close> is the number of documents \<open>dreamProcessor\<close> receives before its
  \<open>select\<close> takes the cancellation.
\<close>

definition dreamOut :: "flags \<Rightarrow> nat \<Rightarrow> Document list \<Rightarrow> Document list" where
  "dreamOut fl n rawOut =
     (if enableDreaming fl then dreamProcessor (map Received (take n rawOut) @ [CtxDone])
      else pass_through rawOut)"

definition published :: "lib \<Rightarrow> flags \<Rightarrow> nat \<Rightarrow> Document list \<Rightarrow> kafka_Message list" where
  "published lib fl n rawOut = enhancedProducer lib fl (dreamOut fl n rawOut)"

subsection \<open>The worker pool as a transition system\<close>

text \<open>
  The counters of \<open>CrawlerStats\<close> are \<open>int64\<close>; they are embedded as integers, and no
  statement below depends on their range.
\<close>

record CrawlerStats =
  PagesProcessed :: int
  Errors :: int
  DreamsGenerated :: int
  BytesProcessed :: int
  AveragePageSize :: float64

definition IncrementPages :: "CrawlerStats \<Rightarrow> CrawlerStats" where
  "IncrementPages s = s\<lparr>PagesProcessed := PagesProcessed s + 1\<rparr>"

definition IncrementErrors :: "CrawlerStats \<Rightarrow> CrawlerStats" where
  "IncrementErrors s = s\<lparr>Errors := Errors s + 1\<rparr>"

definition AddBytes :: "int \<Rightarrow> CrawlerStats \<Rightarrow> CrawlerStats" where
  "AddBytes bytes s =
     (let s = s\<lparr>BytesProcessed := BytesProcessed s + bytes\<rparr>
      in s\<lparr>AveragePageSize := real_of_int (BytesProcessed s) / real_of_int (PagesProcessed s)\<rparr>)"

definition allowedDomains :: "lib \<Rightarrow> flags \<Rightarrow> string set option" where
  "allowedDomains lib fl =
     (if domainWhitelist fl \<noteq> []
      then Some (set (map (strings_TrimSpace lib) (strings_Split (domainWhitelist fl) '','')))
      else None)"

text \<open>
  Where a worker goroutine stands in its loop body: waiting in the \<open>select\<close> (\<open>Idle\<close>),
  holding a dequeued entry (\<open>Got\<close>), past \<open>seen.LoadOrStore\<close> (\<open>Claimed\<close>), past the
  depth, whitelist, robots and rate-limit checks (\<open>Ready\<close>), in the loop over the new links
  (\<open>Linking\<close>), or returned (\<open>Stopped\<close>).
\<close>

datatype wstate =
    Idle
  | Got URLWithMetadata
  | Claimed URLWithMetadata
  | Ready URLWithMetadata
  | Linking URLWithMetadata "ExtractedLink list"
  | Stopped

text \<open>
  The shared state. \<open>urlQueue\<close> is the content of the buffered channel, oldest entry first;
  \<open>rawOut\<close> lists the documents sent on the output channel; \<open>hostMap\<close> holds the hosts with
  a policy record; \<open>fetched\<close> records the calls of \<open>enhancedFetchAndParse\<close>, in order.
\<close>

record crawler =
  urlQueue :: "URLWithMetadata list"
  seeds_left :: "string list"
  seen :: "string set"
  hostMap :: "string set"
  stats :: CrawlerStats
  rawOut :: "Document list"
  cancelled :: bool
  crashed :: bool
  wstates :: "nat \<Rightarrow> wstate"
  fetched :: "URLWithMetadata list"

definition zero_CrawlerStats :: CrawlerStats where
  "zero_CrawlerStats =
     \<lparr>PagesProcessed = 0, Errors = 0, DreamsGenerated = 0, BytesProcessed = 0,
      AveragePageSize = 0\<rparr>"

text \<open>
  The state \<open>main\<close> builds before it starts the goroutines (it exits at once when no seed
  is given).
\<close>

definition init :: "string list \<Rightarrow> crawler" where
  "init seeds =
     \<lparr>urlQueue = [], seeds_left = seeds, seen = {}, hostMap = {}, stats = zero_CrawlerStats,
      rawOut = [], cancelled = False, crashed = False, wstates = (\<lambda>w. Idle), fetched = []\<rparr>"

text \<open>
  The atomic steps. \<open>Seed\<close>: the seeding goroutine sends its next seed. \<open>Dequeue w\<close>: worker
  \<open>w\<close> receives from the queue. \<open>Claim w\<close>: the empty-URL test and \<open>seen.LoadOrStore\<close>.
  \<open>Admit w disallowed lim_err\<close>: the depth test, \<open>url.Parse\<close>, the whitelist, the host
  policy lookup, the robots test (\<open>disallowed\<close> tells whether robots data is present and
  denies the path) and \<open>lim.Wait\<close> (\<open>lim_err\<close> tells whether it returns an error).
  \<open>Fetch w http now\<close>: the call of \<open>enhancedFetchAndParse\<close> and the emission of its document.
  \<open>Enqueue w\<close>: one iteration of the loop over the new links, or its end. \<open>Cancel\<close>: the
  context is cancelled. \<open>Exit w\<close>: the worker's \<open>select\<close> takes \<open>ctx.Done()\<close>.
\<close>

datatype event =
    Seed
  | Dequeue nat
  | Claim nat
  | Admit nat bool bool
  | Fetch nat http_outcome Time
  | Enqueue nat
  | Cancel
  | Exit nat

definition set_w :: "nat \<Rightarrow> wstate \<Rightarrow> crawler \<Rightarrow> crawler" where
  "set_w w st s = s\<lparr>wstates := (wstates s)(w := st)\<rparr>"

definition seed_step :: "flags \<Rightarrow> crawler \<Rightarrow> crawler option" where
  "seed_step fl s =
     (case seeds_left s of
        [] \<Rightarrow> None
      | sd # rest \<Rightarrow>
          if length (urlQueue s) < queueSize fl
          then Some (s\<lparr>urlQueue := urlQueue s
                          @ [\<lparr>um_URL = sd,
                              um_Metadata = \<lparr>depth = 0, parent = [], priority = 10\<rparr>\<rparr>],
                        seeds_left := rest\<rparr>)
          else None)"

definition dequeue_step :: "nat \<Rightarrow> crawler \<Rightarrow> crawler option" where
  "dequeue_step w s =
     (case (wstates s w, urlQueue s) of
        (Idle, urlMeta # rest) \<Rightarrow> Some (set_w w (Got urlMeta) (s\<lparr>urlQueue := rest\<rparr>))
      | _ \<Rightarrow> None)"

definition claim_step :: "nat \<Rightarrow> crawler \<Rightarrow> crawler option" where
  "claim_step w s =
     (case wstates s w of
        Got urlMeta \<Rightarrow>
          if um_URL urlMeta = [] then Some (set_w w Idle s)
          else if um_URL urlMeta \<in> seen s then Some (set_w w Idle s)
          else Some (set_w w (Claimed urlMeta) (s\<lparr>seen := insert (um_URL urlMeta) (seen s)\<rparr>))
      | _ \<Rightarrow> None)"

definition admit_step :: "lib \<Rightarrow> flags \<Rightarrow> nat \<Rightarrow> bool \<Rightarrow> bool \<Rightarrow> crawler \<Rightarrow> crawler option" where
  "admit_step lib fl w disallowed lim_err s =
     (case wstates s w of
        Claimed urlMeta \<Rightarrow>
          if maxDepth fl <s depth (um_Metadata urlMeta) then Some (set_w w Idle s)
          else
            (case url_Parse lib (um_URL urlMeta) of
               None \<Rightarrow> Some (set_w w Idle (s\<lparr>stats := IncrementErrors (stats s)\<rparr>))
             | Some parsed \<Rightarrow>
                 if (case allowedDomains lib fl of
                       Some allowed \<Rightarrow> url_Host parsed \<notin> allowed
                     | None \<Rightarrow> False)
                 then Some (set_w w Idle s)
                 else
                   (let s = s\<lparr>hostMap := insert (url_Host parsed) (hostMap s)\<rparr>
                    in if disallowed then Some (set_w w Idle s)
                       else if lim_err then Some (set_w w Idle s)
                       else Some (set_w w (Ready urlMeta) s)))
      | _ \<Rightarrow> None)"

definition fetch_step ::
  "lib \<Rightarrow> nat \<Rightarrow> http_outcome \<Rightarrow> Time \<Rightarrow> crawler \<Rightarrow> crawler option"
where
  "fetch_step lib w http now s =
     (case wstates s w of
        Ready urlMeta \<Rightarrow>
          (let s = s\<lparr>fetched := fetched s @ [urlMeta]\<rparr>
           in case enhancedFetchAndParse lib http now (um_URL urlMeta) (um_Metadata urlMeta) of
                None \<Rightarrow> Some (set_w w Stopped (s\<lparr>crashed := True\<rparr>))
              | Some (doc, newLinks, Some err) \<Rightarrow>
                  Some (set_w w Idle (s\<lparr>stats := IncrementErrors (stats s)\<rparr>))
              | Some (doc, newLinks, None) \<Rightarrow>
                  (let s = s\<lparr>stats := IncrementPages (stats s)\<rparr>;
                       s = s\<lparr>stats := AddBytes (int (length (doc_Text doc))) (stats s)\<rparr>;
                       s = s\<lparr>rawOut := rawOut s @ [doc]\<rparr>
                   in Some (set_w w (Linking urlMeta newLinks) s)))
      | _ \<Rightarrow> None)"

definition enqueue_step :: "flags \<Rightarrow> nat \<Rightarrow> crawler \<Rightarrow> crawler option" where
  "enqueue_step fl w s =
     (case wstates s w of
        Linking urlMeta [] \<Rightarrow> Some (set_w w Idle s)
      | Linking urlMeta (link # rest) \<Rightarrow>
          (let s = set_w w (Linking urlMeta rest) s
           in if link_Priority link > 0
              then
                (let newMeta = \<lparr>depth = depth (um_Metadata urlMeta) + 1,
                                parent = um_URL urlMeta,
                                priority = link_Priority link\<rparr>
                 in if length (urlQueue s) < queueSize fl
                    then Some (s\<lparr>urlQueue := urlQueue s
                                    @ [\<lparr>um_URL = link_URL link, um_Metadata = newMeta\<rparr>]\<rparr>)
                    else Some s)
              else Some s)
      | _ \<Rightarrow> None)"

definition exit_step :: "nat \<Rightarrow> crawler \<Rightarrow> crawler option" where
  "exit_step w s =
     (case wstates s w of
        Idle \<Rightarrow> if cancelled s then Some (set_w w Stopped s) else None
      | _ \<Rightarrow> None)"

definition of_worker :: "event \<Rightarrow> nat option" where
  "of_worker e =
     (case e of
        Dequeue w \<Rightarrow> Some w | Claim w \<Rightarrow> Some w | Admit w d l \<Rightarrow> Some w
      | Fetch w h t \<Rightarrow> Some w | Enqueue w \<Rightarrow> Some w | Exit w \<Rightarrow> Some w
      | _ \<Rightarrow> None)"

text \<open>
  One step of the system; \<open>None\<close> when the event cannot happen in the state: the program
  has panicked, the worker does not exist or stands elsewhere, or the channel operation
  blocks.
\<close>

definition step :: "lib \<Rightarrow> flags \<Rightarrow> event \<Rightarrow> crawler \<Rightarrow> crawler option" where
  "step lib fl e s =
     (if crashed s then None
      else if (case of_worker e of Some w \<Rightarrow> \<not> w < workers fl | None \<Rightarrow> False) then None
      else
        (case e of
           Seed \<Rightarrow> seed_step fl s
         | Dequeue w \<Rightarrow> dequeue_step w s
         | Claim w \<Rightarrow> claim_step w s
         | Admit w disallowed lim_err \<Rightarrow> admit_step lib fl w disallowed lim_err s
         | Fetch w http now \<Rightarrow> fetch_step lib w http now s
         | Enqueue w \<Rightarrow> enqueue_step fl w s
         | Cancel \<Rightarrow> Some (s\<lparr>cancelled := True\<rparr>)
         | Exit w \<Rightarrow> exit_step w s))"

fun run :: "lib \<Rightarrow> flags \<Rightarrow> event list \<Rightarrow> crawler \<Rightarrow> crawler option" where
  "run lib fl [] s = Some s"
| "run lib fl (e # es) s = (case step lib fl e s of None \<Rightarrow> None | Some s' \<Rightarrow> run lib fl es s')"

subsection \<open>Vocabulary for the statements about keywords\<close>

text \<open>
  The tokens \<open>extractKeywords\<close> counts, before its length and stop-word filter; the
  filter itself; and the condition under which the function may return a word.
\<close>

definition keyword_tokens :: "lib \<Rightarrow> string \<Rightarrow> string list" where
  "keyword_tokens lib text =
     map (\<lambda>word. strings_Trim word ''.,!?;:'')
       (strings_Fields lib (strings_ToLower lib text))"

definition counted :: "string \<Rightarrow> bool" where
  "counted w \<longleftrightarrow> 3 < length w \<and> \<not> stopWords w"

definition keyword_candidate :: "lib \<Rightarrow> string \<Rightarrow> string \<Rightarrow> bool" where
  "keyword_candidate lib text w \<longleftrightarrow>
     w \<in> set (keyword_tokens lib text) \<and> 3 < length w \<and> \<not> stopWords w
     \<and> (2 \<le> count_list (keyword_tokens lib text) w \<or> 6 < length w)"

text \<open>
  The specification's wording of the same: tokens are the white-space separated words,
  lowercased, with trailing \<open>.,!?;:\<close> stripped; a keyword is a token outside the stop-word
  set that occurs at least twice or is longer than 6.
\<close>

definition spec_tokens :: "lib \<Rightarrow> string \<Rightarrow> string list" where
  "spec_tokens lib text =
     map (\<lambda>word. rev (dropWhile (\<lambda>c. c \<in> set ''.,!?;:'') (rev word)))
       (strings_Fields lib (strings_ToLower lib text))"

definition spec_keyword :: "lib \<Rightarrow> string \<Rightarrow> string \<Rightarrow> bool" where
  "spec_keyword lib text w \<longleftrightarrow>
     w \<in> set (spec_tokens lib text) \<and> \<not> stopWords w
     \<and> (2 \<le> count_list (spec_tokens lib text) w \<or> 6 < length w)"

subsection \<open>Vocabulary for the statements about links\<close>

text \<open>
  The resolved URL of an anchor that passes the guards of the callback, when the base URL
  has parsed.
\<close>

definition link_target :: "lib \<Rightarrow> URL \<Rightarrow> anchor \<Rightarrow> URL option" where
  "link_target lib b s =
     (case a_href s of
        None \<Rightarrow> None
      | Some href \<Rightarrow>
          if length href < 2 \<or> strings_HasPrefix href ''#'' then None
          else
            (case url_Parse_ref lib b href of
               None \<Rightarrow> None
             | Some u \<Rightarrow>
                 if url_Scheme u \<noteq> ''http'' \<and> url_Scheme u \<noteq> ''https'' then None
                 else Some u))"


definition spec_priority :: "lib \<Rightarrow> bool \<Rightarrow> string \<Rightarrow> int \<Rightarrow> int" where
  "spec_priority lib same_host anchor_text page_depth =
     (let p = (if same_host then 3 else 1)
              + (if strings_Contains (strings_ToLower lib anchor_text) ''article''
                    \<or> strings_Contains (strings_ToLower lib anchor_text) ''news''
                    \<or> strings_Contains (strings_ToLower lib anchor_text) ''blog''
                 then 2 else 0)
      in if 2 \<le> page_depth then max 1 (p - 1) else p)"

subsection \<open>Vocabulary for the statements about fetch-and-parse results\<close>

text \<open>
  The keyword lists of the chunks of a result, in chunk order, and its dream hints.
\<close>

definition chunk_keywords ::
  "(Document \<times> ExtractedLink list \<times> error option) option \<Rightarrow> string list list"
where
  "chunk_keywords r =
     (case r of Some (doc, links, err) \<Rightarrow> map chunk_Keywords (doc_Chunks doc) | None \<Rightarrow> [])"

definition hints_of ::
  "(Document \<times> ExtractedLink list \<times> error option) option \<Rightarrow> DreamingHints option"
where
  "hints_of r = (case r of Some (doc, links, err) \<Rightarrow> Some (doc_DreamHints doc) | None \<Rightarrow> None)"

subsection \<open>Invariants of the worker pool\<close>

text \<open>
  The entry a worker has claimed in the seen set and not yet fetched or dropped.
\<close>

definition claimed_by :: "wstate \<Rightarrow> URLWithMetadata option" where
  "claimed_by st = (case st of Claimed u \<Rightarrow> Some u | Ready u \<Rightarrow> Some u | _ \<Rightarrow> None)"

definition dedupe_inv :: "crawler \<Rightarrow> bool" where
  "dedupe_inv s \<longleftrightarrow>
     distinct (map um_URL (fetched s))
     \<and> um_URL ` set (fetched s) \<subseteq> seen s
     \<and> (\<forall>w u. claimed_by (wstates s w) = Some u \<longrightarrow>
            um_URL u \<in> seen s \<and> um_URL u \<notin> um_URL ` set (fetched s))
     \<and> (\<forall>w w' u u'. w \<noteq> w' \<longrightarrow> claimed_by (wstates s w) = Some u \<longrightarrow>
            claimed_by (wstates s w') = Some u' \<longrightarrow> um_URL u \<noteq> um_URL u')"

text \<open>
  Where a queue entry comes from: a seed at depth 0, or a link of a fetched page, one level
  below it.
\<close>

definition origin :: "string list \<Rightarrow> crawler \<Rightarrow> URLWithMetadata \<Rightarrow> bool" where
  "origin seeds s e \<longleftrightarrow>
     (um_URL e \<in> set seeds \<and> depth (um_Metadata e) = 0)
     \<or> (\<exists>p \<in> set (fetched s). parent (um_Metadata e) = um_URL p
            \<and> depth (um_Metadata e) = depth (um_Metadata p) + 1)"

definition depth_inv :: "flags \<Rightarrow> string list \<Rightarrow> crawler \<Rightarrow> bool" where
  "depth_inv fl seeds s \<longleftrightarrow>
     (\<forall>u \<in> set (fetched s). sint (depth (um_Metadata u)) \<le> sint (maxDepth fl))
     \<and> (\<forall>w u. wstates s w = Ready u \<longrightarrow> sint (depth (um_Metadata u)) \<le> sint (maxDepth fl))
     \<and> (\<forall>w u ls. wstates s w = Linking u ls \<longrightarrow> u \<in> set (fetched s))
     \<and> (\<forall>e \<in> set (urlQueue s). origin seeds s e)
     \<and> set (seeds_left s) \<subseteq> set seeds"

subsection \<open>A library instance and inputs for the examples\<close>

text \<open>
  On ASCII text, which is all the examples use, \<open>strings.ToLower\<close> maps \<open>A\<close> to \<open>Z\<close>
  to lower case, and \<open>strings.Fields\<close> and \<open>strings.TrimSpace\<close> take the six bytes tab,
  line feed, vertical tab, form feed, carriage return and space for white space. On other
  text the three functions of Go do more (Unicode case mapping, Unicode white space); the
  functions below are the library of the examples only.
\<close>

definition isSpace :: "char \<Rightarrow> bool" where
  "isSpace c \<longleftrightarrow> c \<in> set [CHR 0x09, CHR 0x0A, CHR 0x0B, CHR 0x0C, CHR 0x0D, CHR '' '']"

definition toLower :: "char \<Rightarrow> char" where
  "toLower c =
     (case map_of (zip ''ABCDEFGHIJKLMNOPQRSTUVWXYZ'' ''abcdefghijklmnopqrstuvwxyz'') c of
        Some l \<Rightarrow> l
      | None \<Rightarrow> c)"

definition ascii_ToLower :: "string \<Rightarrow> string" where
  "ascii_ToLower s = map toLower s"

fun fields_from :: "string \<Rightarrow> string \<Rightarrow> string list" where
  "fields_from cur [] = (if cur = [] then [] else [cur])"
| "fields_from cur (c # cs) =
     (if isSpace c then (if cur = [] then fields_from [] cs else cur # fields_from [] cs)
      else fields_from (cur @ [c]) cs)"

definition ascii_Fields :: "string \<Rightarrow> string list" where
  "ascii_Fields s = fields_from [] s"

definition ascii_TrimSpace :: "string \<Rightarrow> string" where
  "ascii_TrimSpace s = trim_by isSpace s"

text \<open>
  \<open>demo_lib\<close> answers as the Go packages (Go 1.20 or later) do on the inputs the examples
  below use: the URL \<open>http://a.test/\<close> and four references resolved against it, five HTML
  bodies with the MD5 sums of their clean texts, the date \<open>2024-01-01T00:00:00+24:00\<close>, and
  a runtime that ranges over a map in insertion order. \<open>time.Parse\<close> accepts a zone offset
  of 24 hours; \<open>Time.MarshalJSON\<close>, and with it \<open>json.Marshal\<close> of a document, rejects a
  time whose zone offset is 24 hours or more. Where \<open>json_Marshal\<close> succeeds it returns the
  URL of the document in place of the JSON text. No example has an entity to find.
  \<open>demo_lib_rev\<close> differs only in the runtime, which ranges in the opposite order.
\<close>

definition a_test :: URL where
  "a_test = \<lparr>url_Scheme = ''http'', url_Host = ''a.test'', url_Path = ''/'',
             url_String = ''http://a.test/''\<rparr>"

definition demo_refs :: "(string \<times> URL) list" where
  "demo_refs =
     [(''/'', a_test),
      (''/blog'', \<lparr>url_Scheme = ''http'', url_Host = ''a.test'', url_Path = ''/blog'',
                   url_String = ''http://a.test/blog''\<rparr>),
      (''https://b.test/news'', \<lparr>url_Scheme = ''https'', url_Host = ''b.test'',
                   url_Path = ''/news'', url_String = ''https://b.test/news''\<rparr>),
      (''mailto:me@a.test'', \<lparr>url_Scheme = ''mailto'', url_Host = [], url_Path = [],
                   url_String = ''mailto:me@a.test''\<rparr>)]"

definition empty_page :: page where
  "empty_page =
     \<lparr>find_title = [], find_main = [], find_body = [], find_meta_author = [],
      find_meta_date = [], find_meta_keywords = [], find_meta_category = [],
      find_html_lang = None, find_headings = [], find_p = [], find_quotes = [],
      find_a_href = [], find_img = [], find_video = []\<rparr>"

definition demo_body :: string where
  "demo_body = ''<h1>Dreaming crawlers</h1>''"

definition demo_page :: page where
  "demo_page = empty_page\<lparr>find_body := ''Dreaming crawlers'',
                            find_headings := [''Dreaming crawlers'']\<rparr>"

definition home_page :: page where
  "home_page = empty_page\<lparr>find_body := ''Home Our Blog ElsewhereMailTop'', find_a_href :=
     [\<lparr>a_href = Some ''/'', a_text = ''Home''\<rparr>,
      \<lparr>a_href = Some ''/blog'', a_text = '' Our Blog ''\<rparr>,
      \<lparr>a_href = Some ''https://b.test/news'', a_text = ''Elsewhere''\<rparr>,
      \<lparr>a_href = Some ''mailto:me@a.test'', a_text = ''Mail''\<rparr>,
      \<lparr>a_href = Some ''#top'', a_text = ''Top''\<rparr>]\<rparr>"

definition home_body :: string where
  "home_body = ''<a href=/>Home</a><a href=/blog> Our Blog </a>''
             @ ''<a href=https://b.test/news>Elsewhere</a>''
             @ ''<a href=mailto:me@a.test>Mail</a><a href=#top>Top</a>''"

text \<open>
  A page whose first anchor stands in a \<open>nav\<close> element, and the same page once the
  element is removed.
\<close>

definition nav_body :: string where
  "nav_body = ''<nav><a href=/blog>Blog</a></nav><a href=https://b.test/news>Elsewhere</a>''"

definition nav_page :: page where
  "nav_page = empty_page\<lparr>find_body := ''BlogElsewhere'', find_a_href :=
     [\<lparr>a_href = Some ''/blog'', a_text = ''Blog''\<rparr>,
      \<lparr>a_href = Some ''https://b.test/news'', a_text = ''Elsewhere''\<rparr>]\<rparr>"

definition nav_removed :: page where
  "nav_removed = empty_page\<lparr>find_body := ''Elsewhere'', find_a_href :=
     [\<lparr>a_href = Some ''https://b.test/news'', a_text = ''Elsewhere''\<rparr>]\<rparr>"

text \<open>
  A page of one paragraph, and a page that gives its date with a zone offset of 24 hours.
\<close>

definition dream_body :: string where
  "dream_body = ''<p>a mystical dream of creative art</p>''"

definition dream_page :: page where
  "dream_page = empty_page\<lparr>find_body := ''a mystical dream of creative art'',
                             find_p := [''a mystical dream of creative art'']\<rparr>"

definition late_date :: string where
  "late_date = ''2024-01-01T00:00:00+24:00''"

definition late_body :: string where
  "late_body = ''<meta name=date content=2024-01-01T00:00:00+24:00>''"

definition late_page :: page where
  "late_page = empty_page\<lparr>find_meta_date := [Some late_date]\<rparr>"

definition zone_marshals :: "Time \<Rightarrow> bool" where
  "zone_marshals t \<longleftrightarrow> \<bar>t_offset t\<bar> < 86400"

text \<open>
  \<open>%.2f\<close> of a non-negative number: two decimals, rounded to nearest, ties to even.
\<close>

definition two_decimals :: "float64 \<Rightarrow> string" where
  "two_decimals x =
     (let k = nat \<lfloor>x * 100\<rfloor>;
          r = x * 100 - real k;
          k = (if 1 / 2 < r \<or> (r = 1 / 2 \<and> odd k) then k + 1 else k)
      in itoa (k div 100) @ ''.'' @ itoa (k mod 100 div 10) @ itoa (k mod 10))"

definition demo_lib :: lib where
  "demo_lib =
     \<lparr>strings_ToLower = ascii_ToLower,
      strings_TrimSpace = ascii_TrimSpace,
      strings_Fields = ascii_Fields,
      url_Parse = map_of [(''http://a.test/'', a_test)],
      url_Parse_ref = (\<lambda>base href. map_of demo_refs href),
      url_Parse_ref_nil = (\<lambda>href. RefPanic),
      goquery_NewDocument =
        (\<lambda>body. if body = demo_body then Some demo_page
                else if body = home_body then Some home_page
                else if body = nav_body then Some nav_page
                else if body = dream_body then Some dream_page
                else if body = late_body then Some late_page
                else Some empty_page),
      goquery_Remove = (\<lambda>selector d. if d = nav_page then nav_removed else d),
      time_Parse_RFC3339 =
        (\<lambda>s. if s = late_date then Some \<lparr>t_unix = 1703980800, t_offset = 86400\<rparr> else None),
      md5_hex = (\<lambda>s. if s = ''Dreaming crawlers'' then ''edf1941d44088fa93cf47cbd40455341''
                      else if s = ''Home Our Blog ElsewhereMailTop''
                        then ''cfe54c454dc7d220c0789c8d95094af2''
                      else if s = ''Elsewhere'' then ''584134dbbae2ecd365fd2e01b28d93f2''
                      else if s = ''a mystical dream of creative art''
                        then ''262c524cc771b45e62490b6d7b84ea70''
                      else ''d41d8cd98f00b204e9800998ecf8427e''),
      regexp_FindAllString = (\<lambda>pattern s. []),
      json_Marshal =
        (\<lambda>doc. if zone_marshals (doc_FetchedAt doc)
                    \<and> (case meta_PublishedAt (doc_Metadata doc) of
                           None \<Rightarrow> True
                         | Some t \<Rightarrow> zone_marshals t)
                 then Some (doc_URL doc) else None),
      fmt_2f = two_decimals,
      map_range = (\<lambda>m. m)\<rparr>"

definition demo_lib_rev :: lib where
  "demo_lib_rev = demo_lib\<lparr>map_range := rev\<rparr>"

text \<open>
  A document whose dream hints give the surrealism score 0.7, and the default flags with
  \<open>--enable-dreaming=false\<close>.
\<close>

definition dreamy_doc :: Document where
  "dreamy_doc =
     (let doc = zero_Document\<lparr>doc_URL := ''http://a.test/'',
                               doc_CleanText := ''a mystical dream of creative art''\<rparr>
      in doc\<lparr>doc_DreamHints := generateDreamHints demo_lib doc\<rparr>)"

definition nodream_flags :: flags where
  "nodream_flags = default_flags\<lparr>enableDreaming := False\<rparr>"

text \<open>
  The seed \<open>http://a.test/\<close> as a queue entry, a value of \<open>time.Now()\<close> (May 1, 2024,
  12:00 UTC), six responses, and a worker that is about to fetch the seed.
\<close>

definition demo_now :: Time where
  "demo_now = \<lparr>t_unix = 1714564800, t_offset = 0\<rparr>"

definition seed_entry :: URLWithMetadata where
  "seed_entry = \<lparr>um_URL = ''http://a.test/'',
                 um_Metadata = \<lparr>depth = 0, parent = [], priority = 10\<rparr>\<rparr>"

definition not_found :: http_Response where
  "not_found = \<lparr>resp_StatusCode = 404,
                resp_Header = map_of [(''Content-Type'', [''text/plain''])],
                resp_ContentLength = 18, resp_Body = ''404 page not found''\<rparr>"

definition demo_response :: http_Response where
  "demo_response = \<lparr>resp_StatusCode = 200,
                    resp_Header = map_of [(''Content-Type'', [''text/html''])],
                    resp_ContentLength = 26, resp_Body = demo_body\<rparr>"

definition home_response :: http_Response where
  "home_response = \<lparr>resp_StatusCode = 200,
                    resp_Header = map_of [(''Content-Type'', [''text/html''])],
                    resp_ContentLength = 140, resp_Body = home_body\<rparr>"


definition dream_response :: http_Response where
  "dream_response = \<lparr>resp_StatusCode = 200,
                     resp_Header = map_of [(''Content-Type'', [''text/html''])],
                     resp_ContentLength = 39, resp_Body = dream_body\<rparr>"

definition late_response :: http_Response where
  "late_response = \<lparr>resp_StatusCode = 200,
                    resp_Header = map_of [(''Content-Type'', [''text/html''])],
                    resp_ContentLength = 50, resp_Body = late_body\<rparr>"

definition demo_seeds :: "string list" where
  "demo_seeds = [''http://a.test/'', ''http://a.test/'']"

definition demo_ready :: crawler where
  "demo_ready = set_w 0 (Ready seed_entry) (init demo_seeds)"

text \<open>
  A run of one worker that fetches the seed, a page with five anchors, and enqueues its
  two links.
\<close>

definition crawl_events :: "event list" where
  "crawl_events =
     [Seed, Dequeue 0, Claim 0, Admit 0 False False, Fetch 0 (Responded home_response) demo_now,
      Enqueue 0, Enqueue 0, Enqueue 0]"

text \<open>
  A run of two workers on three seeds, the first and the last equal: worker 0 claims and
  fetches the first, then dequeues the second; worker 1 dequeues the copy.
\<close>

definition blog_seed :: URLWithMetadata where
  "blog_seed = \<lparr>um_URL = ''http://a.test/blog'',
                um_Metadata = \<lparr>depth = 0, parent = [], priority = 10\<rparr>\<rparr>"

definition dedupe_seeds :: "string list" where
  "dedupe_seeds = [''http://a.test/'', ''http://a.test/blog'', ''http://a.test/'']"

definition dedupe_events :: "event list" where
  "dedupe_events =
     [Seed, Seed, Seed, Dequeue 0, Claim 0, Admit 0 False False,
      Fetch 0 (Responded not_found) demo_now, Enqueue 0, Dequeue 0, Dequeue 1]"

text \<open>
  A run with \<open>--max-depth=0\<close>: after \<open>crawl_events\<close> the worker dequeues and claims the
  first child, which is one level too deep.
\<close>

definition shallow_flags :: flags where
  "shallow_flags = default_flags\<lparr>maxDepth := 0\<rparr>"

definition blog_child :: URLWithMetadata where
  "blog_child = \<lparr>um_URL = ''http://a.test/blog'',
                 um_Metadata = \<lparr>depth = 1, parent = ''http://a.test/'', priority = 5\<rparr>\<rparr>"

definition news_child :: URLWithMetadata where
  "news_child = \<lparr>um_URL = ''https://b.test/news'',
                 um_Metadata = \<lparr>depth = 1, parent = ''http://a.test/'', priority = 1\<rparr>\<rparr>"

definition deep_events :: "event list" where
  "deep_events = crawl_events @ [Dequeue 0, Claim 0]"

text \<open>
  Runs of one worker that fetches the seed: a page of mystical text, with
  \<open>--enable-dreaming=false\<close>; and the page with the late date.
\<close>

definition dream_events :: "event list" where
  "dream_events =
     [Seed, Dequeue 0, Claim 0, Admit 0 False False, Fetch 0 (Responded dream_response) demo_now]"

definition late_events :: "event list" where
  "late_events =
     [Seed, Dequeue 0, Claim 0, Admit 0 False False, Fetch 0 (Responded late_response) demo_now]"

section \<open>Properties\<close>

text \<open>
  C10. The visual-cues and audio-cues fields of the dream hints do not depend on the
  document: \<open>extractVisualCues\<close> returns the same three strings for every text, so does
  \<open>extractAudioCues\<close>, and \<open>generateDreamHints\<close> stores exactly these lists.
\<close>

theorem C10_cues_constant:
  "extractVisualCues text = [''ethereal lighting'', ''flowing forms'', ''crystalline structures'']
   \<and> extractAudioCues text = [''ambient whispers'', ''digital harmonics'', ''pulsing rhythms'']
   \<and> VisualCues (generateDreamHints lib doc)
       = [''ethereal lighting'', ''flowing forms'', ''crystalline structures'']
   \<and> AudioCues (generateDreamHints lib doc)
       = [''ambient whispers'', ''digital harmonics'', ''pulsing rhythms'']"
  by (simp add: extractVisualCues_def extractAudioCues_def generateDreamHints_def Let_def)

subsection \<open>The producer stage\<close>

lemma dreamProcessor_until_done: "dreamProcessor (map Received xs @ [CtxDone]) = xs"
  by (induction xs) auto

lemma pass_through_all: "pass_through xs = xs"
  by (induction xs) auto

lemma enhancedProducer_append:
  "enhancedProducer lib fl (xs @ ys) = enhancedProducer lib fl xs @ enhancedProducer lib fl ys"
  by (induction xs) auto

lemma produce_each_flag_blind:
  "produce_each lib (fl\<lparr>enableDreaming := b\<rparr>) doc = produce_each lib fl doc"
  by (simp add: produce_each_def raw_message_def dream_message_def split: option.splits)

lemma enhancedProducer_flag_blind:
  "enhancedProducer lib (fl\<lparr>enableDreaming := b\<rparr>) docs = enhancedProducer lib fl docs"
  by (induction docs) (simp_all add: produce_each_flag_blind)

lemma allowedDomains_flag_blind:
  "allowedDomains lib (fl\<lparr>enableDreaming := b\<rparr>) = allowedDomains lib fl"
  by (simp add: allowedDomains_def)

lemma admit_step_flag_blind:
  "admit_step lib (fl\<lparr>enableDreaming := b\<rparr>) w d l s = admit_step lib fl w d l s"
  by (simp add: admit_step_def allowedDomains_flag_blind split: wstate.splits option.splits)

lemma enqueue_step_flag_blind:
  "enqueue_step (fl\<lparr>enableDreaming := b\<rparr>) w s = enqueue_step fl w s"
  by (simp add: enqueue_step_def Let_def split: wstate.splits list.splits)

lemma seed_step_flag_blind: "seed_step (fl\<lparr>enableDreaming := b\<rparr>) s = seed_step fl s"
  by (simp add: seed_step_def split: list.splits)

lemma step_flag_blind: "step lib (fl\<lparr>enableDreaming := b\<rparr>) e s = step lib fl e s"
  by (cases e)
    (simp_all add: step_def of_worker_def seed_step_flag_blind admit_step_flag_blind
      enqueue_step_flag_blind)

lemma run_flag_blind: "run lib (fl\<lparr>enableDreaming := b\<rparr>) evs s = run lib fl evs s"
  by (induction evs arbitrary: s) (simp_all add: step_flag_blind split: option.splits)

text \<open>
  C1 asks that with \<open>--enable-dreaming=false\<close> no Document is published on \<open>dream.seeds\<close>.
  The code does not do that. The worker pool never reads the flag, so the dream hints are
  generated as with the flag on; \<open>main\<close> uses the flag only to choose between
  \<open>dreamProcessor\<close> and a loop that passes every document through; and the producer never
  reads it. In a run with the flag off that fetches a page of mystical text, the document
  gets the surrealism score 0.7212 and is published on \<open>raw.content\<close> and on
  \<open>dream.seeds\<close>.
\<close>

theorem C1_dream_topic_with_flag_off:
  "enableDreaming nodream_flags = False
   \<and> map_option (\<lambda>s. map (\<lambda>doc. Surrealism (doc_DreamHints doc)) (rawOut s))
        (run demo_lib nodream_flags dream_events (init [''http://a.test/'']))
       = Some [0.7212]
   \<and> map_option (\<lambda>s. published demo_lib nodream_flags 0 (rawOut s))
        (run demo_lib nodream_flags dream_events (init [''http://a.test/'']))
       = Some [\<lparr>msg_Topic = ''raw.content'', msg_Partition = - 1,
                 msg_Value = ''http://a.test/'', msg_Key = ''http://a.test/'',
                 msg_Headers = [(''content_type'', ''application/json''),
                                (''crawler_version'', ''dream-crawler-v1.0''),
                                (''surrealism_score'', ''0.72'')]\<rparr>,
                \<lparr>msg_Topic = ''dream.seeds'', msg_Partition = - 1,
                 msg_Value = ''http://a.test/'', msg_Key = ''http://a.test/'',
                 msg_Headers = [(''dream_ready'', ''true''),
                                (''surrealism_score'', ''0.72'')]\<rparr>]
   \<and> run lib (fl\<lparr>enableDreaming := b\<rparr>) evs s = run lib fl evs s
   \<and> published lib (fl\<lparr>enableDreaming := False\<rparr>) n docs = enhancedProducer lib fl docs"
proof -
  have 1: "enableDreaming nodream_flags = False"
    by (simp add: nodream_flags_def)
  have 2: "map_option (\<lambda>s. map (\<lambda>doc. Surrealism (doc_DreamHints doc)) (rawOut s))
        (run demo_lib nodream_flags dream_events (init [''http://a.test/'']))
       = Some [0.7212]"
    by code_simp
  have 3: "map_option (\<lambda>s. published demo_lib nodream_flags 0 (rawOut s))
        (run demo_lib nodream_flags dream_events (init [''http://a.test/'']))
       = Some [\<lparr>msg_Topic = ''raw.content'', msg_Partition = - 1,
                 msg_Value = ''http://a.test/'', msg_Key = ''http://a.test/'',
                 msg_Headers = [(''content_type'', ''application/json''),
                                (''crawler_version'', ''dream-crawler-v1.0''),
                                (''surrealism_score'', ''0.72'')]\<rparr>,
                \<lparr>msg_Topic = ''dream.seeds'', msg_Partition = - 1,
                 msg_Value = ''http://a.test/'', msg_Key = ''http://a.test/'',
                 msg_Headers = [(''dream_ready'', ''true''),
                                (''surrealism_score'', ''0.72'')]\<rparr>]"
    by code_simp
  have 4: "run lib (fl\<lparr>enableDreaming := b\<rparr>) evs s = run lib fl evs s"
    by (rule run_flag_blind)
  have 5: "published lib (fl\<lparr>enableDreaming := False\<rparr>) n docs = enhancedProducer lib fl docs"
    by (simp add: published_def dreamOut_def pass_through_all enhancedProducer_flag_blind)
  show ?thesis
    by (rule conjI [OF 1 conjI [OF 2 conjI [OF 3 conjI [OF 4 5]]]])
qed

lemma dreamy_doc_Surrealism: "Surrealism (doc_DreamHints dreamy_doc) = 0.7"
  by code_simp

lemma dreamy_doc_marshals: "json_Marshal demo_lib dreamy_doc = Some ''http://a.test/''"
  by code_simp

text \<open>
  C2, as stated: every Document the producer consumes is published on \<open>raw.content\<close>. It
  fails for a document that \<open>json.Marshal\<close> rejects: the loop logs the error and goes on
  to the next document. Such a document can reach the producer. A page that gives its date
  as \<open>2024-01-01T00:00:00+24:00\<close> is fetched; \<open>time.Parse\<close> accepts the date, the worker
  emits the document with that \<open>published_at\<close>, and the producer, whose \<open>json.Marshal\<close>
  rejects a zone offset of 24 hours, publishes nothing.
\<close>

theorem C2_counterexample:
  "map_option (\<lambda>s. map (\<lambda>doc. (doc_URL doc, meta_PublishedAt (doc_Metadata doc))) (rawOut s))
     (run demo_lib default_flags late_events (init [''http://a.test/'']))
     = Some [(''http://a.test/'', Some \<lparr>t_unix = 1703980800, t_offset = 86400\<rparr>)]
   \<and> map_option (\<lambda>s. enhancedProducer demo_lib default_flags (rawOut s))
       (run demo_lib default_flags late_events (init [''http://a.test/''])) = Some []"
  by code_simp

text \<open>
  C2, amended. For every Document the producer consumes: when \<open>json.Marshal\<close> rejects it,
  nothing is published for it; otherwise one message is published on the raw topic, with
  the URL as key, the JSON text as value and the headers \<open>content_type\<close>,
  \<open>crawler_version\<close> and \<open>surrealism_score\<close>, followed, exactly when the surrealism score
  is strictly greater than 0.5, by one message on the dream topic with the same key and
  value and the headers \<open>dream_ready\<close> and \<open>surrealism_score\<close>. Nothing else is published
  for it, and the documents are handled in the order of their arrival.
\<close>

theorem C2_producer_amended:
  "enhancedProducer lib fl (before @ doc # after)
     = enhancedProducer lib fl before
       @ (case json_Marshal lib doc of
            None \<Rightarrow> []
          | Some docBytes \<Rightarrow>
              \<lparr>msg_Topic = kafkaTopic fl, msg_Partition = - 1, msg_Value = docBytes,
               msg_Key = doc_URL doc,
               msg_Headers =
                 [(''content_type'', ''application/json''),
                  (''crawler_version'', ''dream-crawler-v1.0''),
                  (''surrealism_score'', fmt_2f lib (Surrealism (doc_DreamHints doc)))]\<rparr>
              # (if 0.5 < Surrealism (doc_DreamHints doc)
                 then [\<lparr>msg_Topic = dreamTopic fl, msg_Partition = - 1, msg_Value = docBytes,
                        msg_Key = doc_URL doc,
                        msg_Headers =
                          [(''dream_ready'', ''true''),
                           (''surrealism_score'',
                            fmt_2f lib (Surrealism (doc_DreamHints doc)))]\<rparr>]
                 else []))
       @ enhancedProducer lib fl after"
  by (simp add: enhancedProducer_append produce_each_def raw_message_def dream_message_def
      PartitionAny_def split: option.splits)

theorem C2_producer_amended_witness:
  "enhancedProducer demo_lib default_flags [dreamy_doc]
     = [\<lparr>msg_Topic = ''raw.content'', msg_Partition = - 1,
         msg_Value = ''http://a.test/'', msg_Key = ''http://a.test/'',
         msg_Headers = [(''content_type'', ''application/json''),
                        (''crawler_version'', ''dream-crawler-v1.0''),
                        (''surrealism_score'', ''0.70'')]\<rparr>,
        \<lparr>msg_Topic = ''dream.seeds'', msg_Partition = - 1,
         msg_Value = ''http://a.test/'', msg_Key = ''http://a.test/'',
         msg_Headers = [(''dream_ready'', ''true''), (''surrealism_score'', ''0.70'')]\<rparr>]"
proof -
  have u: "doc_URL dreamy_doc = ''http://a.test/''"
    by (simp add: dreamy_doc_def zero_Document_def Let_def)
  have f: "fmt_2f demo_lib (7 / 10) = ''0.70''"
    by code_simp
  have t: "kafkaTopic default_flags = ''raw.content''" "dreamTopic default_flags = ''dream.seeds''"
    by (simp_all add: default_flags_def)
  show ?thesis
    using C2_producer_amended [of demo_lib default_flags "[]" dreamy_doc "[]"]
    by (simp add: dreamy_doc_marshals dreamy_doc_Surrealism u f t)
qed

subsection \<open>Keywords\<close>

lemma map_of_map_incr:
  "map_of (map_incr m k) = (map_of m)(k \<mapsto> (case map_of m k of None \<Rightarrow> 1 | Some n \<Rightarrow> n + 1))"
  by (induction m k rule: map_incr.induct) (auto simp: fun_eq_iff)

lemma keys_map_incr:
  "map fst (map_incr m k) = (if k \<in> fst ` set m then map fst m else map fst m @ [k])"
  by (induction m k rule: map_incr.induct) (auto simp: image_iff)

lemma distinct_map_incr: "distinct (map fst m) \<Longrightarrow> distinct (map fst (map_incr m k))"
  by (simp add: keys_map_incr)

lemma map_of_count_word:
  "map_of (count_word a m) w =
     (if counted (strings_Trim a ''.,!?;:'') \<and> strings_Trim a ''.,!?;:'' = w
      then Some ((case map_of m w of None \<Rightarrow> 0 | Some n \<Rightarrow> n) + 1)
      else map_of m w)"
  by (auto simp: count_word_def Let_def counted_def map_of_map_incr split: option.splits)

lemma distinct_count_word: "distinct (map fst m) \<Longrightarrow> distinct (map fst (count_word a m))"
  by (simp add: count_word_def Let_def distinct_map_incr)

lemma distinct_fold_count_word:
  "distinct (map fst m) \<Longrightarrow> distinct (map fst (fold count_word ws m))"
  by (induction ws arbitrary: m) (simp_all add: distinct_count_word)

lemma map_of_fold_count_word:
  "map_of (fold count_word ws m) w =
     (let c = count_list (filter counted (map (\<lambda>word. strings_Trim word ''.,!?;:'') ws)) w
      in if c = 0 then map_of m w
         else Some ((case map_of m w of None \<Rightarrow> 0 | Some n \<Rightarrow> n) + int c))"
proof (induction ws arbitrary: m)
  case Nil
  then show ?case by simp
next
  case (Cons a ws)
  have "map_of (fold count_word (a # ws) m) w = map_of (fold count_word ws (count_word a m)) w"
    by simp
  also have "\<dots> =
     (let c = count_list (filter counted (map (\<lambda>word. strings_Trim word ''.,!?;:'') ws)) w
      in if c = 0 then map_of (count_word a m) w
         else Some ((case map_of (count_word a m) w of None \<Rightarrow> 0 | Some n \<Rightarrow> n) + int c))"
    by (rule Cons.IH)
  also have "\<dots> =
     (let c = count_list (filter counted
                (map (\<lambda>word. strings_Trim word ''.,!?;:'') (a # ws))) w
      in if c = 0 then map_of m w
         else Some ((case map_of m w of None \<Rightarrow> 0 | Some n \<Rightarrow> n) + int c))"
    by (auto simp: map_of_count_word Let_def split: option.splits)
  finally show ?case .
qed

lemma wordCount_entry:
  "(w, n) \<in> set (wordCount_of lib text) \<longleftrightarrow>
     n = int (count_list (filter counted (keyword_tokens lib text)) w) \<and> 0 < n"
proof -
  have d: "distinct (map fst (wordCount_of lib text))"
    by (simp add: wordCount_of_def distinct_fold_count_word)
  have "(w, n) \<in> set (wordCount_of lib text) \<longleftrightarrow> map_of (wordCount_of lib text) w = Some n"
    using d by simp
  also have "\<dots> \<longleftrightarrow> n = int (count_list (filter counted (keyword_tokens lib text)) w) \<and> 0 < n"
    by (auto simp: wordCount_of_def keyword_tokens_def map_of_fold_count_word Let_def)
  finally show ?thesis .
qed

lemma keywords_loop_closed:
  "length kw < 10 \<Longrightarrow>
   keywords_loop kw es
     = kw @ take (10 - length kw) (map fst (filter (\<lambda>(w, c). 2 \<le> c \<or> 6 < length w) es))"
proof (induction es arbitrary: kw)
  case Nil
  then show ?case by simp
next
  case (Cons e es)
  obtain w c where e: "e = (w, c)" by (cases e)
  show ?case
  proof (cases "2 \<le> c \<or> 6 < length w")
    case True
    show ?thesis
    proof (cases "length kw = 9")
      case True
      with \<open>2 \<le> c \<or> 6 < length w\<close> show ?thesis by (simp add: e)
    next
      case False
      with Cons.prems have "length (kw @ [w]) < 10" by simp
      from Cons.IH [OF this] True Cons.prems False show ?thesis
        by (simp add: e Suc_diff_Suc take_Cons')
    qed
  next
    case False
    with Cons show ?thesis by (simp add: e)
  qed
qed

lemma count_list_filter: "count_list (filter P xs) w = (if P w then count_list xs w else 0)"
  by (induction xs) auto

lemma count_list_pos: "0 < count_list xs w \<longleftrightarrow> w \<in> set xs"
  using count_list_0_iff [of xs w] by auto

lemma range_entries:
  assumes "go_range_ok lib"
  shows "set (map_range lib m) = set m"
    and "distinct (map fst m) \<Longrightarrow> distinct (map fst (map_range lib m))"
proof -
  have eq: "mset (map_range lib m) = mset m"
    using assms by (simp add: go_range_ok_def)
  show "set (map_range lib m) = set m"
    using eq by (rule mset_eq_setD)
  have "mset (map fst (map_range lib m)) = mset (map fst m)"
    using eq by (metis mset_map)
  then show "distinct (map fst m) \<Longrightarrow> distinct (map fst (map_range lib m))"
    by (metis distinct_count_atmost_1 set_mset_mset count_mset)
qed

lemma extractKeywords_closed:
  "extractKeywords lib text
     = take 10 (map fst (filter (\<lambda>(w, c). 2 \<le> c \<or> 6 < length w)
                  (map_range lib (wordCount_of lib text))))"
  by (simp add: extractKeywords_def keywords_loop_closed)

lemma qualifying_keys:
  assumes "go_range_ok lib"
  shows "set (map fst (filter (\<lambda>(w, c). 2 \<le> c \<or> 6 < length w)
                  (map_range lib (wordCount_of lib text)))) = {w. keyword_candidate lib text w}"
    (is "set ?ks = _")
proof -
  have "w \<in> set ?ks \<longleftrightarrow> keyword_candidate lib text w" for w
  proof -
    have "w \<in> set ?ks \<longleftrightarrow> (\<exists>n. (w, n) \<in> set (wordCount_of lib text) \<and> (2 \<le> n \<or> 6 < length w))"
      using range_entries(1) [OF assms, of "wordCount_of lib text"] by force
    also have "\<dots> \<longleftrightarrow> keyword_candidate lib text w"
      using count_list_pos [of "keyword_tokens lib text" w]
      by (auto simp: wordCount_entry count_list_filter keyword_candidate_def counted_def
          split: if_splits)
    finally show ?thesis .
  qed
  then show ?thesis by blast
qed

lemma distinct_qualifying_keys:
  assumes "go_range_ok lib"
  shows "distinct (map fst (filter (\<lambda>(w, c). 2 \<le> c \<or> 6 < length w)
                  (map_range lib (wordCount_of lib text))))"
proof -
  have "distinct (map fst (wordCount_of lib text))"
    by (simp add: wordCount_of_def distinct_fold_count_word)
  then have "distinct (map fst (map_range lib (wordCount_of lib text)))"
    by (rule range_entries(2) [OF assms])
  then show ?thesis by (rule distinct_map_filter)
qed

lemma go_range_ok_demo: "go_range_ok demo_lib"
  by (simp add: go_range_ok_def demo_lib_def)

lemma go_range_ok_demo_rev: "go_range_ok demo_lib_rev"
  by (simp add: go_range_ok_def demo_lib_def demo_lib_rev_def)

text \<open>
  C4, as stated: a token outside the stop-word set is returned if and only if it occurs at
  least twice or is longer than 6. It fails in two ways. The counting loop drops every
  word of length at most 3, so \<open>cat\<close>, occurring twice, is not returned. And
  \<open>strings.Trim\<close> strips the punctuation at both ends, so the token \<open>.dreaming\<close> of the
  specification is returned as \<open>dreaming\<close>.
\<close>

theorem C4_counterexample:
  "spec_keyword demo_lib ''cat cat'' ''cat''
   \<and> extractKeywords demo_lib ''cat cat'' = []
   \<and> spec_keyword demo_lib ''.dreaming'' ''.dreaming''
   \<and> extractKeywords demo_lib ''.dreaming'' = [''dreaming'']"
  by code_simp

text \<open>
  C4, amended. Take as tokens the fields \<open>strings.Fields\<close> finds in the text lowercased by
  \<open>strings.ToLower\<close>, each with the bytes \<open>.,!?;:\<close> stripped at both ends. Whatever order
  the runtime ranges over the map: the keywords returned are distinct and at most 10;
  each is a token longer than 3 bytes and outside the stop-word set that occurs at least
  twice or is longer than 6 bytes; when at most 10 words qualify in this sense the result
  holds exactly these, and otherwise it holds 10 of them.
\<close>

theorem C4_keywords_amended:
  assumes "go_range_ok lib"
  shows "distinct (extractKeywords lib text)
         \<and> length (extractKeywords lib text) \<le> 10
         \<and> (\<forall>w \<in> set (extractKeywords lib text). keyword_candidate lib text w)
         \<and> (card {w. keyword_candidate lib text w} \<le> 10 \<longrightarrow>
              set (extractKeywords lib text) = {w. keyword_candidate lib text w})
         \<and> (10 < card {w. keyword_candidate lib text w} \<longrightarrow>
              length (extractKeywords lib text) = 10)"
proof -
  let ?ks = "map fst (filter (\<lambda>(w, c). 2 \<le> c \<or> 6 < length w)
                  (map_range lib (wordCount_of lib text)))"
  have k: "extractKeywords lib text = take 10 ?ks" by (rule extractKeywords_closed)
  have s: "set ?ks = {w. keyword_candidate lib text w}" by (rule qualifying_keys [OF assms])
  have d: "distinct ?ks" by (rule distinct_qualifying_keys [OF assms])
  have c: "card {w. keyword_candidate lib text w} = length ?ks"
    using distinct_card [OF d] s by simp
  have 1: "distinct (extractKeywords lib text)" using d by (simp add: k)
  have 2: "length (extractKeywords lib text) \<le> 10" by (simp add: k)
  have 3: "\<forall>w \<in> set (extractKeywords lib text). keyword_candidate lib text w"
    using s by (auto simp: k dest: in_set_takeD)
  have 4: "card {w. keyword_candidate lib text w} \<le> 10 \<longrightarrow>
              set (extractKeywords lib text) = {w. keyword_candidate lib text w}"
    using s c by (simp add: k)
  have 5: "10 < card {w. keyword_candidate lib text w} \<longrightarrow>
              length (extractKeywords lib text) = 10"
    using c by (simp add: k)
  from 1 2 3 4 5 show ?thesis by blast
qed

theorem C4_keywords_amended_witness:
  "go_range_ok demo_lib
   \<and> extractKeywords demo_lib ''Dreaming crawlers, dreaming!'' = [''dreaming'', ''crawlers'']
   \<and> distinct (extractKeywords demo_lib ''Dreaming crawlers, dreaming!'')
   \<and> length (extractKeywords demo_lib ''Dreaming crawlers, dreaming!'') \<le> 10
   \<and> keyword_candidate demo_lib ''Dreaming crawlers, dreaming!'' ''dreaming''
   \<and> keyword_candidate demo_lib ''Dreaming crawlers, dreaming!'' ''crawlers''
   \<and> set (extractKeywords demo_lib ''Dreaming crawlers, dreaming!'')
       = {w. keyword_candidate demo_lib ''Dreaming crawlers, dreaming!'' w}"
proof -
  let ?T = "''Dreaming crawlers, dreaming!''"
  note t = C4_keywords_amended [OF go_range_ok_demo, of ?T]
  have e: "extractKeywords demo_lib ?T = [''dreaming'', ''crawlers'']"
    by code_simp
  have d: "distinct (extractKeywords demo_lib ?T)"
    and l: "length (extractKeywords demo_lib ?T) \<le> 10"
    and m: "\<forall>w \<in> set (extractKeywords demo_lib ?T). keyword_candidate demo_lib ?T w"
    and c4: "card {w. keyword_candidate demo_lib ?T w} \<le> 10 \<longrightarrow>
              set (extractKeywords demo_lib ?T) = {w. keyword_candidate demo_lib ?T w}"
    and c5: "10 < card {w. keyword_candidate demo_lib ?T w} \<longrightarrow>
              length (extractKeywords demo_lib ?T) = 10"
    using t by blast+
  have "length (extractKeywords demo_lib ?T) \<noteq> 10" unfolding e by simp
  with c5 have "card {w. keyword_candidate demo_lib ?T w} \<le> 10" by fastforce
  with c4 have s: "set (extractKeywords demo_lib ?T) = {w. keyword_candidate demo_lib ?T w}"
    by blast
  have k1: "keyword_candidate demo_lib ?T ''dreaming''"
    and k2: "keyword_candidate demo_lib ?T ''crawlers''"
    using m unfolding e by simp_all
  from go_range_ok_demo e d l k1 k2 s show ?thesis by blast
qed

subsection \<open>Determinism of annotation\<close>

text \<open>
  The dream hints are the same whatever order the runtime ranges over maps: they depend on
  the chunks only through their number.
\<close>

lemma fold_each_length:
  assumes "\<And>s c n. \<exists>x. f s (c, n) = (if P s then (c @ [x], Suc n) else (c, n))"
  shows "length (fst (fold f xs (c, n))) = length c + length (filter P xs)
         \<and> snd (fold f xs (c, n)) = n + length (filter P xs)"
proof (induction xs arbitrary: c n)
  case Nil
  then show ?case by simp
next
  case (Cons s xs)
  from assms [of s c n] obtain x
    where x: "f s (c, n) = (if P s then (c @ [x], Suc n) else (c, n))" ..
  show ?case
    using Cons.IH [of "c @ [x]" "Suc n"] Cons.IH [of c n] by (simp add: x)
qed

lemma length_extractContentChunks:
  "length (extractContentChunks lib doc ct)
     = length (filter (\<lambda>s. strings_TrimSpace lib s \<noteq> [] \<and> 5 < length (strings_TrimSpace lib s))
                 (find_headings doc))
       + length (filter (\<lambda>s. strings_TrimSpace lib s \<noteq> [] \<and> 20 < length (strings_TrimSpace lib s))
                   (find_p doc))
       + length (filter (\<lambda>s. strings_TrimSpace lib s \<noteq> []) (find_quotes doc))"
proof -
  have h: "\<exists>x. headline_each lib s (c, n)
             = (if strings_TrimSpace lib s \<noteq> [] \<and> 5 < length (strings_TrimSpace lib s)
                then (c @ [x], Suc n) else (c, n))" for s c n
    by (simp add: headline_each_def Let_def)
  have p: "\<exists>x. paragraph_each lib s (c, n)
             = (if strings_TrimSpace lib s \<noteq> [] \<and> 20 < length (strings_TrimSpace lib s)
                then (c @ [x], Suc n) else (c, n))" for s c n
    by (simp add: paragraph_each_def Let_def)
  have q: "\<exists>x. quote_each lib s (c, n)
             = (if strings_TrimSpace lib s \<noteq> [] then (c @ [x], Suc n) else (c, n))" for s c n
    by (simp add: quote_each_def Let_def)
  obtain c1 n1 where 1: "fold (headline_each lib) (find_headings doc) ([], 0) = (c1, n1)"
    by (cases "fold (headline_each lib) (find_headings doc) ([], 0)")
  obtain c2 n2 where 2: "fold (paragraph_each lib) (find_p doc) (c1, n1) = (c2, n2)"
    by (cases "fold (paragraph_each lib) (find_p doc) (c1, n1)")
  have a: "length c1 = length (filter (\<lambda>s. strings_TrimSpace lib s \<noteq> []
                                  \<and> 5 < length (strings_TrimSpace lib s)) (find_headings doc))"
    using fold_each_length [where f = "headline_each lib" and xs = "find_headings doc"
          and P = "\<lambda>s. strings_TrimSpace lib s \<noteq> [] \<and> 5 < length (strings_TrimSpace lib s)"
          and c = "[]" and n = 0, OF h]
    by (simp add: 1)
  have b: "length c2 = length c1 + length (filter (\<lambda>s. strings_TrimSpace lib s \<noteq> []
                                  \<and> 20 < length (strings_TrimSpace lib s)) (find_p doc))"
    using fold_each_length [where f = "paragraph_each lib" and xs = "find_p doc"
          and P = "\<lambda>s. strings_TrimSpace lib s \<noteq> [] \<and> 20 < length (strings_TrimSpace lib s)"
          and c = c1 and n = n1, OF p]
    by (simp add: 2)
  have c: "length (fst (fold (quote_each lib) (find_quotes doc) (c2, n2)))
             = length c2 + length (filter (\<lambda>s. strings_TrimSpace lib s \<noteq> []) (find_quotes doc))"
    using fold_each_length [where f = "quote_each lib" and xs = "find_quotes doc"
          and P = "\<lambda>s. strings_TrimSpace lib s \<noteq> []" and c = c2 and n = n2, OF q]
    by simp
  show ?thesis
    unfolding extractContentChunks_def Let_def 1 2 fst_conv c b a ..
qed

lemma generateDreamHints_cong:
  assumes "doc_CleanText d = doc_CleanText d'" and "doc_Title d = doc_Title d'"
    and "meta_WordCount (doc_Metadata d) = meta_WordCount (doc_Metadata d')"
    and "length (doc_Chunks d) = length (doc_Chunks d')"
    and "length (doc_Media d) = length (doc_Media d')"
  shows "generateDreamHints lib d = generateDreamHints lib d'"
  using assms
  by (simp add: generateDreamHints_def calculateComplexity_def calculateSurrealismPotential_def
      Let_def)

lemma base_Parse_map_range: "base_Parse (lib\<lparr>map_range := r\<rparr>) = base_Parse lib"
  by (simp add: fun_eq_iff base_Parse_def split: option.splits)

lemma map_range_irrelevant:
  "extractLinksWithPriority (lib\<lparr>map_range := r\<rparr>) doc baseURL d
     = extractLinksWithPriority lib doc baseURL d"
  "extractMediaAssets (lib\<lparr>map_range := r\<rparr>) doc baseURL = extractMediaAssets lib doc baseURL"
  "extractMetadata (lib\<lparr>map_range := r\<rparr>) doc m = extractMetadata lib doc m"
  "extractDomain (lib\<lparr>map_range := r\<rparr>) rawurl = extractDomain lib rawurl"
  "extractText (lib\<lparr>map_range := r\<rparr>) doc = extractText lib doc"
  "cleanText (lib\<lparr>map_range := r\<rparr>) text = cleanText lib text"
  "generateDreamHints (lib\<lparr>map_range := r\<rparr>) document = generateDreamHints lib document"
proof -
  have n: "new_link (lib\<lparr>map_range := r\<rparr>) = new_link lib"
    by (simp add: fun_eq_iff new_link_def)
  have l: "link_each (lib\<lparr>map_range := r\<rparr>) = link_each lib"
    unfolding fun_eq_iff link_each_def base_Parse_map_range n by simp
  have i: "img_each (lib\<lparr>map_range := r\<rparr>) = img_each lib"
    unfolding fun_eq_iff img_each_def base_Parse_map_range by simp
  have v: "video_each (lib\<lparr>map_range := r\<rparr>) = video_each lib"
    unfolding fun_eq_iff video_each_def base_Parse_map_range by simp
  have t: "date_each (lib\<lparr>map_range := r\<rparr>) = date_each lib"
    by (auto simp: fun_eq_iff date_each_def split: option.splits)
  have a: "author_each (lib\<lparr>map_range := r\<rparr>) = author_each lib"
    by (simp add: fun_eq_iff author_each_def split: option.splits)
  have g: "tag_loop (lib\<lparr>map_range := r\<rparr>) = tag_loop lib"
    by (simp add: fun_eq_iff tag_loop_def)
  have k: "keywords_each (lib\<lparr>map_range := r\<rparr>) = keywords_each lib"
    by (simp add: fun_eq_iff keywords_each_def g split: option.splits)
  have c: "category_each (lib\<lparr>map_range := r\<rparr>) = category_each lib"
    by (simp add: fun_eq_iff category_each_def split: option.splits)
  have m: "main_each (lib\<lparr>map_range := r\<rparr>) = main_each lib"
    by (simp add: fun_eq_iff main_each_def)
  show "extractLinksWithPriority (lib\<lparr>map_range := r\<rparr>) doc baseURL d
     = extractLinksWithPriority lib doc baseURL d"
    by (simp add: extractLinksWithPriority_def l)
  show "extractMediaAssets (lib\<lparr>map_range := r\<rparr>) doc baseURL = extractMediaAssets lib doc baseURL"
    by (simp add: extractMediaAssets_def i v cong: option.case_cong)
  show "extractMetadata (lib\<lparr>map_range := r\<rparr>) doc m = extractMetadata lib doc m"
    by (simp add: extractMetadata_def t a k c)
  show "extractDomain (lib\<lparr>map_range := r\<rparr>) rawurl = extractDomain lib rawurl"
    by (simp add: extractDomain_def)
  show "extractText (lib\<lparr>map_range := r\<rparr>) doc = extractText lib doc"
    by (simp add: extractText_def m Let_def)
  show "cleanText (lib\<lparr>map_range := r\<rparr>) text = cleanText lib text"
    by (simp add: cleanText_def)
  show "generateDreamHints (lib\<lparr>map_range := r\<rparr>) document = generateDreamHints lib document"
    by (simp add: generateDreamHints_def)
qed

lemma extractMetadata_WordCount:
  "meta_WordCount (extractMetadata lib gqDoc m) = meta_WordCount m"
proof -
  have a: "meta_WordCount (fold (author_each lib) xs m) = meta_WordCount m" for xs m
    by (induction xs arbitrary: m) (simp_all add: author_each_def split: option.splits)
  have d: "meta_WordCount (fold (date_each lib) xs m) = meta_WordCount m" for xs m
    by (induction xs arbitrary: m) (simp_all add: date_each_def split: option.splits)
  have t: "meta_WordCount (fold (tag_loop lib) xs m) = meta_WordCount m" for xs m
    by (induction xs arbitrary: m) (simp_all add: tag_loop_def Let_def)
  have k: "meta_WordCount (fold (keywords_each lib) xs m) = meta_WordCount m" for xs m
    by (induction xs arbitrary: m) (simp_all add: keywords_each_def t split: option.splits)
  have c: "meta_WordCount (fold (category_each lib) xs m) = meta_WordCount m" for xs m
    by (induction xs arbitrary: m) (simp_all add: category_each_def split: option.splits)
  show ?thesis
    by (simp add: extractMetadata_def Let_def a d k c split: option.splits)
qed

lemma dream_hints_independent_of_map_order:
  "hints_of (enhancedFetchAndParse (lib\<lparr>map_range := r\<rparr>) http now rawurl metadata)
     = hints_of (enhancedFetchAndParse lib http now rawurl metadata)"
proof (cases http)
  case NewRequestFailed
  then show ?thesis by (simp add: enhancedFetchAndParse_def)
next
  case DoFailed
  then show ?thesis by (simp add: enhancedFetchAndParse_def)
next
  case (Responded resp)
  show ?thesis
  proof (cases "resp_StatusCode resp = 200")
    case False
    then show ?thesis by (simp add: enhancedFetchAndParse_def Responded Let_def)
  next
    case True
    show ?thesis
    proof (cases "goquery_NewDocument lib (resp_Body resp)")
      case None
      then show ?thesis by (simp add: enhancedFetchAndParse_def Responded Let_def True)
    next
      case (Some gqDoc)
      obtain tx pruned where e: "extractText lib gqDoc = (tx, pruned)"
        by (cases "extractText lib gqDoc")
      define hints where "hints = (\<lambda>chunks media.
        generateDreamHints lib
          (zero_Document
             \<lparr>doc_Title := strings_TrimSpace lib (find_title gqDoc),
              doc_CleanText := cleanText lib tx,
              doc_Metadata := extractMetadata lib pruned
                (zero_DocumentMetadata
                   \<lparr>meta_WordCount :=
                      int (length (strings_Fields lib (cleanText lib tx)))\<rparr>),
              doc_Chunks := chunks, doc_Media := media\<rparr>))"
      have shape: "hints_of (enhancedFetchAndParse lib' (Responded resp) now rawurl metadata)
              = (case extractLinksWithPriority lib pruned rawurl (depth metadata) of
                   None \<Rightarrow> None
                 | Some links \<Rightarrow>
                     (case extractMediaAssets lib pruned rawurl of
                        None \<Rightarrow> None
                      | Some media \<Rightarrow>
                          Some (hints (extractContentChunks lib' pruned (cleanText lib tx))
                                  media)))"
        if "lib' = lib \<or> lib' = lib\<lparr>map_range := r\<rparr>" for lib'
      proof -
        have gl: "goquery_NewDocument lib' (resp_Body resp) = Some gqDoc"
          using that Some by auto
        have el: "extractText lib' gqDoc = (tx, pruned)"
          using that e map_range_irrelevant(5) by auto
        have sl: "strings_TrimSpace lib' = strings_TrimSpace lib"
          "strings_Fields lib' = strings_Fields lib"
          using that by auto
        have irr: "extractLinksWithPriority lib' pruned rawurl (depth metadata)
                     = extractLinksWithPriority lib pruned rawurl (depth metadata)"
          "extractMediaAssets lib' pruned rawurl = extractMediaAssets lib pruned rawurl"
          "cleanText lib' = cleanText lib"
          "generateDreamHints lib' = generateDreamHints lib"
          using that map_range_irrelevant by auto
        show ?thesis
          unfolding hints_def
          by (auto simp: enhancedFetchAndParse_def Responded True gl el sl irr hints_of_def
              Let_def extractMetadata_WordCount
              intro!: generateDreamHints_cong split: option.splits)
      qed
      have "hints (extractContentChunks (lib\<lparr>map_range := r\<rparr>) pruned ct) media
              = hints (extractContentChunks lib pruned ct) media" for ct media
        unfolding hints_def
        by (rule generateDreamHints_cong) (simp_all add: length_extractContentChunks)
      then show ?thesis
        using shape [of lib] shape [of "lib\<lparr>map_range := r\<rparr>"] Responded
        by (simp cong: option.case_cong)
    qed
  qed
qed

text \<open>
  C3 asks that two runs of parse-and-annotate on the same bytes and base URL produce equal
  chunks, keyword lists included. \<open>extractKeywords\<close> collects the keywords by ranging over a
  Go map, whose order the runtime does not fix. On the body \<open><h1>Dreaming crawlers</h1>\<close>
  a run that ranges in insertion order and a run that ranges in the opposite order, both
  permitted, return the keywords of the headline chunk in different orders.
\<close>

theorem C3_keyword_order_differs:
  "go_range_ok demo_lib \<and> go_range_ok demo_lib_rev
   \<and> chunk_keywords (enhancedFetchAndParse demo_lib (Responded demo_response) demo_now
        ''http://a.test/'' (um_Metadata seed_entry)) = [[''dreaming'', ''crawlers'']]
   \<and> chunk_keywords (enhancedFetchAndParse demo_lib_rev (Responded demo_response) demo_now
        ''http://a.test/'' (um_Metadata seed_entry)) = [[''crawlers'', ''dreaming'']]"
proof -
  have "chunk_keywords (enhancedFetchAndParse demo_lib (Responded demo_response) demo_now
        ''http://a.test/'' (um_Metadata seed_entry)) = [[''dreaming'', ''crawlers'']]"
    by code_simp
  moreover have "chunk_keywords (enhancedFetchAndParse demo_lib_rev (Responded demo_response)
        demo_now ''http://a.test/'' (um_Metadata seed_entry)) = [[''crawlers'', ''dreaming'']]"
    by code_simp
  ultimately show ?thesis
    using go_range_ok_demo go_range_ok_demo_rev by simp
qed

subsection \<open>Links\<close>

lemma link_each_target:
  "link_each lib (Some b) d s links
     = Some (links @ (case link_target lib b s of None \<Rightarrow> [] | Some u \<Rightarrow> [new_link lib b d s u]))"
  by (simp add: link_target_def link_each_def base_Parse_def
      split: option.splits)

lemma each_opt_links:
  "each_opt (link_each lib (Some b) d) anchors links
     = Some (links @ List.map_filter (\<lambda>s. map_option (new_link lib b d s) (link_target lib b s))
                       anchors)"
proof (induction anchors arbitrary: links)
  case Nil
  then show ?case by (simp add: List.map_filter_simps)
next
  case (Cons s anchors)
  then show ?case
    by (simp add: link_each_target List.map_filter_simps split: option.splits)
qed

lemma extractLinks_closed:
  "url_Parse lib baseURL = Some b \<Longrightarrow>
   extractLinksWithPriority lib doc baseURL d
     = Some (List.map_filter (\<lambda>s. map_option (new_link lib b d s) (link_target lib b s))
               (find_a_href doc))"
  by (simp add: extractLinksWithPriority_def each_opt_links)

lemma new_link_fields:
  "link_URL (new_link lib b d s u) = url_String u"
  "link_Text (new_link lib b d s u) = strings_TrimSpace lib (a_text s)"
  by (simp_all add: new_link_def Let_def split: prod.splits)

lemma new_link_Priority:
  "link_Priority (new_link lib b d s u)
     = spec_priority lib (url_Host u = url_Host b) (link_Text (new_link lib b d s u)) (sint d)"
  by (simp add: new_link_def spec_priority_def Let_def maxi_def word_sle_eq split: prod.splits)

lemma map_filter_all2:
  "list_all2 (\<lambda>x y. f x = Some y) (filter (\<lambda>x. f x \<noteq> None) xs) (List.map_filter f xs)"
  by (induction xs) (auto simp: List.map_filter_simps)





lemma demo_base: "url_Parse demo_lib ''http://a.test/'' = Some a_test"
  by (simp add: demo_lib_def)




text \<open>
  C9. Every stored link carries the trimmed anchor text, and its priority is the
  specification's formula: 3 for the host of the base URL and 1 otherwise, plus 2 when
  the anchor text, lowercased by \<open>strings.ToLower\<close>, contains \<open>article\<close>, \<open>news\<close> or
  \<open>blog\<close>, then reduced by 1 with floor 1 when the depth of the page being parsed is at
  least 2.
\<close>

theorem C9_link_priority:
  assumes "url_Parse lib baseURL = Some b"
  shows "\<exists>links. extractLinksWithPriority lib doc baseURL d = Some links
           \<and> list_all2
                (\<lambda>s l. \<exists>u. link_target lib b s = Some u
                          \<and> link_Text l = strings_TrimSpace lib (a_text s)
                          \<and> link_Priority l
                              = spec_priority lib (url_Host u = url_Host b) (link_Text l) (sint d))
                (filter (\<lambda>s. link_target lib b s \<noteq> None) (find_a_href doc))
                links"
proof -
  let ?f = "\<lambda>s. map_option (new_link lib b d s) (link_target lib b s)"
  have P: "(?f s \<noteq> None) = (link_target lib b s \<noteq> None)" for s
    by simp
  have Q: "?f s = Some l \<Longrightarrow> \<exists>u. link_target lib b s = Some u
                          \<and> link_Text l = strings_TrimSpace lib (a_text s)
                          \<and> link_Priority l
                              = spec_priority lib (url_Host u = url_Host b) (link_Text l) (sint d)"
    for s l
    using new_link_Priority new_link_fields(2) by auto
  have "list_all2 (\<lambda>s l. ?f s = Some l) (filter (\<lambda>s. ?f s \<noteq> None) (find_a_href doc))
          (List.map_filter ?f (find_a_href doc))"
    by (rule map_filter_all2)
  then have "list_all2 (\<lambda>s l. ?f s = Some l)
          (filter (\<lambda>s. link_target lib b s \<noteq> None) (find_a_href doc))
          (List.map_filter ?f (find_a_href doc))"
    by (simp only: P)
  then have "list_all2 (\<lambda>s l. \<exists>u. link_target lib b s = Some u
                          \<and> link_Text l = strings_TrimSpace lib (a_text s)
                          \<and> link_Priority l
                              = spec_priority lib (url_Host u = url_Host b) (link_Text l) (sint d))
          (filter (\<lambda>s. link_target lib b s \<noteq> None) (find_a_href doc))
          (List.map_filter ?f (find_a_href doc))"
    by (rule list_all2_mono) (rule Q)
  then show ?thesis
    using extractLinks_closed [OF assms] by blast
qed

theorem C9_link_priority_witness:
  "url_Parse demo_lib ''http://a.test/'' = Some a_test
   \<and> (\<exists>links. extractLinksWithPriority demo_lib home_page ''http://a.test/'' (2::go_int)
                = Some links
           \<and> list_all2
                (\<lambda>s l. \<exists>u. link_target demo_lib a_test s = Some u
                          \<and> link_Text l = strings_TrimSpace demo_lib (a_text s)
                          \<and> link_Priority l
                              = spec_priority demo_lib (url_Host u = url_Host a_test)
                                  (link_Text l) (sint (2::go_int)))
                (filter (\<lambda>s. link_target demo_lib a_test s \<noteq> None) (find_a_href home_page))
                links)"
  by (rule conjI [OF demo_base C9_link_priority [OF demo_base]])

lemma demo_links_depth_0:
  "map_option (map link_Priority)
     (extractLinksWithPriority demo_lib home_page ''http://a.test/'' 0) = Some [5, 1]"
  by code_simp

lemma demo_links_depth_2:
  "map_option (map link_Priority)
     (extractLinksWithPriority demo_lib home_page ''http://a.test/'' 2) = Some [4, 1]"
  by code_simp

subsection \<open>The worker pool\<close>

lemma set_w_simps [simp]:
  "wstates (set_w w st s) = (wstates s)(w := st)"
  "seen (set_w w st s) = seen s"
  "fetched (set_w w st s) = fetched s"
  "urlQueue (set_w w st s) = urlQueue s"
  "seeds_left (set_w w st s) = seeds_left s"
  "rawOut (set_w w st s) = rawOut s"
  "stats (set_w w st s) = stats s"
  "crashed (set_w w st s) = crashed s"
  by (simp_all add: set_w_def)

lemma seed_step_frame:
  assumes "seed_step fl s = Some s'"
  shows "\<exists>sd. sd \<in> set (seeds_left s)
           \<and> urlQueue s' = urlQueue s
               @ [\<lparr>um_URL = sd, um_Metadata = \<lparr>depth = 0, parent = [], priority = 10\<rparr>\<rparr>]
           \<and> set (seeds_left s') \<subseteq> set (seeds_left s)
           \<and> wstates s' = wstates s \<and> seen s' = seen s \<and> fetched s' = fetched s"
  using assms by (auto simp: seed_step_def split: list.splits if_splits)

lemma dequeue_step_frame:
  assumes "dequeue_step w s = Some s'"
  shows "\<exists>u. wstates s w = Idle \<and> urlQueue s = u # urlQueue s'
           \<and> wstates s' = (wstates s)(w := Got u)
           \<and> seeds_left s' = seeds_left s \<and> seen s' = seen s \<and> fetched s' = fetched s"
  using assms by (auto simp: dequeue_step_def split: wstate.splits list.splits)

lemma claim_step_frame:
  assumes "claim_step w s = Some s'"
  shows "\<exists>u. wstates s w = Got u \<and> fetched s' = fetched s \<and> urlQueue s' = urlQueue s
           \<and> seeds_left s' = seeds_left s
           \<and> ((wstates s' = (wstates s)(w := Idle) \<and> seen s' = seen s)
               \<or> (um_URL u \<notin> seen s \<and> wstates s' = (wstates s)(w := Claimed u)
                   \<and> seen s' = insert (um_URL u) (seen s)))"
  using assms by (auto simp: claim_step_def split: wstate.splits if_splits)

lemma admit_step_frame:
  assumes "admit_step lib fl w disallowed lim_err s = Some s'"
  shows "\<exists>u. wstates s w = Claimed u \<and> fetched s' = fetched s \<and> urlQueue s' = urlQueue s
           \<and> seeds_left s' = seeds_left s \<and> seen s' = seen s
           \<and> (wstates s' = (wstates s)(w := Idle)
               \<or> (\<not> maxDepth fl <s depth (um_Metadata u)
                   \<and> wstates s' = (wstates s)(w := Ready u)))"
  using assms
  by (auto simp: admit_step_def Let_def split: wstate.splits if_splits option.splits)

lemma fetch_step_frame:
  assumes "fetch_step lib w http now s = Some s'"
  shows "\<exists>u st. wstates s w = Ready u \<and> fetched s' = fetched s @ [u]
           \<and> urlQueue s' = urlQueue s \<and> seeds_left s' = seeds_left s \<and> seen s' = seen s
           \<and> wstates s' = (wstates s)(w := st)
           \<and> (st = Idle \<or> st = Stopped \<or> (\<exists>ls. st = Linking u ls))"
  using assms
  by (auto simp: fetch_step_def Let_def split: wstate.splits option.splits prod.splits)

lemma enqueue_step_frame:
  assumes "enqueue_step fl w s = Some s'"
  shows "\<exists>u ls. wstates s w = Linking u ls \<and> fetched s' = fetched s
           \<and> seeds_left s' = seeds_left s \<and> seen s' = seen s
           \<and> ((wstates s' = (wstates s)(w := Idle) \<and> urlQueue s' = urlQueue s)
               \<or> (\<exists>l rest. ls = l # rest \<and> wstates s' = (wstates s)(w := Linking u rest)
                     \<and> (urlQueue s' = urlQueue s
                         \<or> urlQueue s' = urlQueue s
                             @ [\<lparr>um_URL = link_URL l,
                                 um_Metadata = \<lparr>depth = depth (um_Metadata u) + 1,
                                                parent = um_URL u,
                                                priority = link_Priority l\<rparr>\<rparr>])))"
  using assms
  by (auto simp: enqueue_step_def Let_def split: wstate.splits list.splits if_splits)

lemma exit_step_frame:
  assumes "exit_step w s = Some s'"
  shows "wstates s w = Idle \<and> wstates s' = (wstates s)(w := Stopped)
         \<and> fetched s' = fetched s \<and> urlQueue s' = urlQueue s
         \<and> seeds_left s' = seeds_left s \<and> seen s' = seen s"
  using assms by (auto simp: exit_step_def split: wstate.splits if_splits)

lemma claimed_by_simps [simp]:
  "claimed_by Idle = None" "claimed_by (Got u) = None" "claimed_by (Claimed u) = Some u"
  "claimed_by (Ready u) = Some u" "claimed_by (Linking u ls) = None" "claimed_by Stopped = None"
  by (simp_all add: claimed_by_def)

lemma dedupe_inv_keep:
  assumes "dedupe_inv s" and "seen s' = seen s" and "fetched s' = fetched s"
    and "\<And>v. claimed_by (wstates s' v) = None
               \<or> claimed_by (wstates s' v) = claimed_by (wstates s v)"
  shows "dedupe_inv s'"
proof -
  have c: "claimed_by (wstates s' v) = Some u \<Longrightarrow> claimed_by (wstates s v) = Some u" for v u
    using assms(4) [of v] by auto
  show ?thesis
    using assms(1) unfolding dedupe_inv_def assms(2,3)
    by (meson c)
qed

lemma dedupe_inv_claim:
  assumes inv: "dedupe_inv s" and "wstates s w = Got u" and new: "um_URL u \<notin> seen s"
    and "wstates s' = (wstates s)(w := Claimed u)" and "seen s' = insert (um_URL u) (seen s)"
    and "fetched s' = fetched s"
  shows "dedupe_inv s'"
proof -
  have other: "claimed_by (wstates s' v) = Some x \<Longrightarrow> v \<noteq> w
                 \<Longrightarrow> claimed_by (wstates s v) = Some x" for v x
    using assms(4) by simp
  have self: "claimed_by (wstates s' w) = Some x \<Longrightarrow> x = u" for x
    using assms(4) by simp
  have old: "claimed_by (wstates s v) = Some x \<Longrightarrow> um_URL x \<in> seen s" for v x
    using inv unfolding dedupe_inv_def by blast
  have 1: "distinct (map um_URL (fetched s'))"
    using inv by (simp add: dedupe_inv_def assms(6))
  have 2: "um_URL ` set (fetched s') \<subseteq> seen s'"
    using inv by (auto simp: dedupe_inv_def assms(5,6))
  have 3: "um_URL x \<in> seen s' \<and> um_URL x \<notin> um_URL ` set (fetched s')"
    if "claimed_by (wstates s' v) = Some x" for v x
  proof (cases "v = w")
    case True
    with that self have "x = u" by simp
    moreover have "um_URL u \<notin> um_URL ` set (fetched s)"
      using inv new unfolding dedupe_inv_def by blast
    ultimately show ?thesis by (simp add: assms(5,6))
  next
    case False
    from other [OF that False] inv show ?thesis
      unfolding dedupe_inv_def assms(5,6) by blast
  qed
  have 4: "um_URL x \<noteq> um_URL y"
    if "v \<noteq> v'" "claimed_by (wstates s' v) = Some x" "claimed_by (wstates s' v') = Some y"
    for v v' x y
  proof (cases "v = w")
    case True
    then have "x = u" using that(2) self by simp
    moreover have "um_URL y \<in> seen s" using other [OF that(3)] old that(1) True by blast
    ultimately show ?thesis using new by auto
  next
    case False
    note vw = this
    show ?thesis
    proof (cases "v' = w")
      case True
      then have "y = u" using that(3) self by simp
      moreover have "um_URL x \<in> seen s" using other [OF that(2) vw] old by blast
      ultimately show ?thesis using new by auto
    next
      case False
      from other [OF that(2) vw] other [OF that(3) False] that(1) inv show ?thesis
        unfolding dedupe_inv_def by blast
    qed
  qed
  show ?thesis
    unfolding dedupe_inv_def using 1 2 3 4 by blast
qed

lemma dedupe_inv_fetch:
  assumes inv: "dedupe_inv s" and r: "wstates s w = Ready u"
    and w': "wstates s' = (wstates s)(w := st)" and st: "claimed_by st = None"
    and "seen s' = seen s" and f: "fetched s' = fetched s @ [u]"
  shows "dedupe_inv s'"
proof -
  have cu: "claimed_by (wstates s w) = Some u" using r by simp
  have other: "claimed_by (wstates s' v) = Some x \<Longrightarrow> v \<noteq> w \<and> claimed_by (wstates s v) = Some x"
    for v x
    using w' st by (cases "v = w") simp_all
  have u_seen: "um_URL u \<in> seen s" and u_new: "um_URL u \<notin> um_URL ` set (fetched s)"
    using inv cu unfolding dedupe_inv_def by blast+
  have 1: "distinct (map um_URL (fetched s'))"
    using inv u_new by (simp add: dedupe_inv_def f)
  have 2: "um_URL ` set (fetched s') \<subseteq> seen s'"
    using inv u_seen by (auto simp: dedupe_inv_def f assms(5))
  have 3: "um_URL x \<in> seen s' \<and> um_URL x \<notin> um_URL ` set (fetched s')"
    if "claimed_by (wstates s' v) = Some x" for v x
  proof -
    from other [OF that] have vw: "v \<noteq> w" and cx: "claimed_by (wstates s v) = Some x" by auto
    have "um_URL x \<noteq> um_URL u"
      using inv vw cx cu unfolding dedupe_inv_def by blast
    moreover have "um_URL x \<in> seen s \<and> um_URL x \<notin> um_URL ` set (fetched s)"
      using inv cx unfolding dedupe_inv_def by blast
    ultimately show ?thesis by (auto simp: f assms(5))
  qed
  have 4: "um_URL x \<noteq> um_URL y"
    if "v \<noteq> v'" "claimed_by (wstates s' v) = Some x" "claimed_by (wstates s' v') = Some y"
    for v v' x y
    using other [OF that(2)] other [OF that(3)] that(1) inv unfolding dedupe_inv_def by blast
  show ?thesis
    unfolding dedupe_inv_def using 1 2 3 4 by blast
qed

lemma dedupe_inv_init: "dedupe_inv (init seeds)"
  by (simp add: dedupe_inv_def init_def)

lemma dedupe_inv_step:
  assumes "dedupe_inv s" and "step lib fl e s = Some s'"
  shows "dedupe_inv s'"
proof (cases e)
  case Seed
  with assms(2) have "seed_step fl s = Some s'" by (simp add: step_def split: if_splits)
  from seed_step_frame [OF this] show ?thesis
    by (intro dedupe_inv_keep [OF assms(1)]) auto
next
  case (Dequeue w)
  with assms(2) have "dequeue_step w s = Some s'" by (simp add: step_def split: if_splits)
  from dequeue_step_frame [OF this] show ?thesis
    by (intro dedupe_inv_keep [OF assms(1)]) auto
next
  case (Claim w)
  with assms(2) have "claim_step w s = Some s'" by (simp add: step_def split: if_splits)
  from claim_step_frame [OF this] obtain u where u: "wstates s w = Got u"
    "fetched s' = fetched s"
    "(wstates s' = (wstates s)(w := Idle) \<and> seen s' = seen s)
       \<or> (um_URL u \<notin> seen s \<and> wstates s' = (wstates s)(w := Claimed u)
           \<and> seen s' = insert (um_URL u) (seen s))"
    by blast
  from u(3) show ?thesis
  proof
    assume "wstates s' = (wstates s)(w := Idle) \<and> seen s' = seen s"
    then show ?thesis using u(2) by (intro dedupe_inv_keep [OF assms(1)]) auto
  next
    assume "um_URL u \<notin> seen s \<and> wstates s' = (wstates s)(w := Claimed u)
           \<and> seen s' = insert (um_URL u) (seen s)"
    then show ?thesis using dedupe_inv_claim [OF assms(1) u(1)] u(2) by blast
  qed
next
  case (Admit w d l)
  with assms(2) have "admit_step lib fl w d l s = Some s'"
    by (simp add: step_def split: if_splits)
  from admit_step_frame [OF this] show ?thesis
    by (intro dedupe_inv_keep [OF assms(1)]) auto
next
  case (Fetch w http now)
  with assms(2) have "fetch_step lib w http now s = Some s'"
    by (simp add: step_def split: if_splits)
  from fetch_step_frame [OF this] obtain u st where u: "wstates s w = Ready u"
    "fetched s' = fetched s @ [u]" "seen s' = seen s" "wstates s' = (wstates s)(w := st)"
    "st = Idle \<or> st = Stopped \<or> (\<exists>ls. st = Linking u ls)"
    by blast
  from u(5) have "claimed_by st = None" by auto
  from dedupe_inv_fetch [OF assms(1) u(1) u(4) this u(3) u(2)] show ?thesis .
next
  case (Enqueue w)
  with assms(2) have "enqueue_step fl w s = Some s'" by (simp add: step_def split: if_splits)
  from enqueue_step_frame [OF this] show ?thesis
    by (intro dedupe_inv_keep [OF assms(1)]) auto
next
  case Cancel
  with assms(2) have "s' = s\<lparr>cancelled := True\<rparr>" by (simp add: step_def split: if_splits)
  then show ?thesis by (intro dedupe_inv_keep [OF assms(1)]) auto
next
  case (Exit w)
  with assms(2) have "exit_step w s = Some s'" by (simp add: step_def split: if_splits)
  from exit_step_frame [OF this] show ?thesis
    by (intro dedupe_inv_keep [OF assms(1)]) auto
qed

lemma dedupe_inv_run:
  "dedupe_inv s \<Longrightarrow> run lib fl evs s = Some s' \<Longrightarrow> dedupe_inv s'"
proof (induction evs arbitrary: s)
  case Nil
  then show ?case by simp
next
  case (Cons e evs)
  from Cons.prems(2) obtain s1 where s1: "step lib fl e s = Some s1" "run lib fl evs s1 = Some s'"
    by (auto split: option.splits)
  from Cons.IH [OF dedupe_inv_step [OF Cons.prems(1) s1(1)] s1(2)] show ?case .
qed

lemma sint_succ:
  fixes x :: "64 word"
  assumes "sint x < 2 ^ 63 - 1"
  shows "sint (x + 1) = sint x + 1"
proof -
  have "- (2 ^ 63) \<le> sint x" using sint_ge [of x] by simp
  then have "signed_take_bit 63 (sint x + 1) = sint x + 1"
    using assms by (intro signed_take_bit_int_eq_self) auto
  then show ?thesis by (simp add: sint_word_add)
qed

lemma origin_mono:
  "origin seeds s e \<Longrightarrow> set (fetched s) \<subseteq> set (fetched s') \<Longrightarrow> origin seeds s' e"
  unfolding origin_def by blast

lemma depth_inv_init: "depth_inv fl seeds (init seeds)"
  by (simp add: depth_inv_def init_def)

lemma depth_inv_keep:
  assumes inv: "depth_inv fl seeds s"
    and f: "fetched s' = fetched s
            \<or> (\<exists>u. fetched s' = fetched s @ [u]
                  \<and> sint (depth (um_Metadata u)) \<le> sint (maxDepth fl))"
    and r: "\<And>v u. wstates s' v = Ready u \<Longrightarrow>
              wstates s v = Ready u \<or> sint (depth (um_Metadata u)) \<le> sint (maxDepth fl)"
    and l: "\<And>v u ls. wstates s' v = Linking u ls \<Longrightarrow>
              (\<exists>ls'. wstates s v = Linking u ls') \<or> u \<in> set (fetched s')"
    and q: "\<And>e. e \<in> set (urlQueue s') \<Longrightarrow> e \<in> set (urlQueue s) \<or> origin seeds s' e"
    and sl: "set (seeds_left s') \<subseteq> set (seeds_left s)"
  shows "depth_inv fl seeds s'"
proof -
  have sub: "set (fetched s) \<subseteq> set (fetched s')" using f by auto
  have 1: "\<forall>u \<in> set (fetched s'). sint (depth (um_Metadata u)) \<le> sint (maxDepth fl)"
    using inv f unfolding depth_inv_def by auto
  have 2: "\<forall>v u. wstates s' v = Ready u \<longrightarrow>
             sint (depth (um_Metadata u)) \<le> sint (maxDepth fl)"
    using inv r unfolding depth_inv_def by blast
  have 3: "\<forall>v u ls. wstates s' v = Linking u ls \<longrightarrow> u \<in> set (fetched s')"
  proof (intro allI impI)
    fix v u ls assume "wstates s' v = Linking u ls"
    from l [OF this] show "u \<in> set (fetched s')"
    proof
      assume "\<exists>ls'. wstates s v = Linking u ls'"
      then have "u \<in> set (fetched s)" using inv unfolding depth_inv_def by blast
      with sub show ?thesis by blast
    qed
  qed
  have 4: "\<forall>e \<in> set (urlQueue s'). origin seeds s' e"
  proof
    fix e assume "e \<in> set (urlQueue s')"
    from q [OF this] show "origin seeds s' e"
    proof
      assume "e \<in> set (urlQueue s)"
      then have "origin seeds s e" using inv unfolding depth_inv_def by blast
      then show ?thesis using sub by (rule origin_mono)
    qed
  qed
  have 5: "set (seeds_left s') \<subseteq> set seeds"
    using inv sl unfolding depth_inv_def by blast
  show ?thesis unfolding depth_inv_def using 1 2 3 4 5 by blast
qed

lemma depth_inv_step:
  assumes inv: "depth_inv fl seeds s" and "step lib fl e s = Some s'"
  shows "depth_inv fl seeds s'"
proof (cases e)
  case Seed
  with assms(2) have "seed_step fl s = Some s'" by (simp add: step_def split: if_splits)
  from seed_step_frame [OF this] obtain sd where sd: "sd \<in> set (seeds_left s)"
    "urlQueue s' = urlQueue s
               @ [\<lparr>um_URL = sd, um_Metadata = \<lparr>depth = 0, parent = [], priority = 10\<rparr>\<rparr>]"
    "set (seeds_left s') \<subseteq> set (seeds_left s)"
    "wstates s' = wstates s" "fetched s' = fetched s"
    by blast
  have "sd \<in> set seeds" using sd(1) inv unfolding depth_inv_def by blast
  then have "origin seeds s'
      \<lparr>um_URL = sd, um_Metadata = \<lparr>depth = 0, parent = [], priority = 10\<rparr>\<rparr>"
    by (simp add: origin_def)
  then show ?thesis
    using sd(3) by (intro depth_inv_keep [OF inv]) (auto simp: sd(2,4,5))
next
  case (Dequeue w)
  with assms(2) have "dequeue_step w s = Some s'" by (simp add: step_def split: if_splits)
  from dequeue_step_frame [OF this] obtain u where u: "wstates s w = Idle"
    "urlQueue s = u # urlQueue s'" "wstates s' = (wstates s)(w := Got u)"
    "seeds_left s' = seeds_left s" "fetched s' = fetched s"
    by blast
  show ?thesis
    by (intro depth_inv_keep [OF inv]) (auto simp: u(2,3,4,5) split: if_splits)
next
  case (Claim w)
  with assms(2) have "claim_step w s = Some s'" by (simp add: step_def split: if_splits)
  from claim_step_frame [OF this] obtain u where u: "wstates s w = Got u"
    "fetched s' = fetched s" "urlQueue s' = urlQueue s" "seeds_left s' = seeds_left s"
    "wstates s' = (wstates s)(w := Idle) \<or> wstates s' = (wstates s)(w := Claimed u)"
    by blast
  show ?thesis
    using u(5) by (intro depth_inv_keep [OF inv]) (auto simp: u(2,3,4) split: if_splits)
next
  case (Admit w d l)
  with assms(2) have "admit_step lib fl w d l s = Some s'"
    by (simp add: step_def split: if_splits)
  from admit_step_frame [OF this] obtain u where u: "wstates s w = Claimed u"
    "fetched s' = fetched s" "urlQueue s' = urlQueue s" "seeds_left s' = seeds_left s"
    "wstates s' = (wstates s)(w := Idle)
       \<or> (\<not> maxDepth fl <s depth (um_Metadata u) \<and> wstates s' = (wstates s)(w := Ready u))"
    by blast
  show ?thesis
    using u(5)
    by (intro depth_inv_keep [OF inv]) (auto simp: u(2,3,4) word_sless_alt split: if_splits)
next
  case (Fetch w http now)
  with assms(2) have "fetch_step lib w http now s = Some s'"
    by (simp add: step_def split: if_splits)
  from fetch_step_frame [OF this] obtain u st where u: "wstates s w = Ready u"
    "fetched s' = fetched s @ [u]" "urlQueue s' = urlQueue s" "seeds_left s' = seeds_left s"
    "wstates s' = (wstates s)(w := st)"
    "st = Idle \<or> st = Stopped \<or> (\<exists>ls. st = Linking u ls)"
    by blast
  have d: "sint (depth (um_Metadata u)) \<le> sint (maxDepth fl)"
    using inv u(1) unfolding depth_inv_def by blast
  show ?thesis
    using u(6) d
    by (intro depth_inv_keep [OF inv]) (auto simp: u(2,3,4,5) split: if_splits)
next
  case (Enqueue w)
  with assms(2) have "enqueue_step fl w s = Some s'" by (simp add: step_def split: if_splits)
  from enqueue_step_frame [OF this] obtain u ls where u: "wstates s w = Linking u ls"
    "fetched s' = fetched s" "seeds_left s' = seeds_left s"
    "(wstates s' = (wstates s)(w := Idle) \<and> urlQueue s' = urlQueue s)
       \<or> (\<exists>l rest. ls = l # rest \<and> wstates s' = (wstates s)(w := Linking u rest)
             \<and> (urlQueue s' = urlQueue s
                 \<or> urlQueue s' = urlQueue s
                     @ [\<lparr>um_URL = link_URL l,
                         um_Metadata = \<lparr>depth = depth (um_Metadata u) + 1,
                                        parent = um_URL u,
                                        priority = link_Priority l\<rparr>\<rparr>]))"
    by blast
  have uf: "u \<in> set (fetched s')" using inv u(1) unfolding depth_inv_def u(2) by blast
  then have new: "origin seeds s' \<lparr>um_URL = x, um_Metadata = \<lparr>depth = depth (um_Metadata u) + 1,
                                        parent = um_URL u, priority = p\<rparr>\<rparr>" for x p
    by (auto simp: origin_def)
  have ws: "wstates s' = (wstates s)(w := Idle)
              \<or> (\<exists>rest. wstates s' = (wstates s)(w := Linking u rest))"
    using u(4) by auto
  have q: "e \<in> set (urlQueue s') \<Longrightarrow> e \<in> set (urlQueue s) \<or> origin seeds s' e" for e
    using u(4) new by auto
  show ?thesis
  proof (intro depth_inv_keep [OF inv])
    show "fetched s' = fetched s
            \<or> (\<exists>u. fetched s' = fetched s @ [u]
                  \<and> sint (depth (um_Metadata u)) \<le> sint (maxDepth fl))"
      by (simp add: u(2))
    show "wstates s v = Ready x \<or> sint (depth (um_Metadata x)) \<le> sint (maxDepth fl)"
      if "wstates s' v = Ready x" for v x
      using that ws by (auto split: if_splits)
    show "(\<exists>ls'. wstates s v = Linking x ls') \<or> x \<in> set (fetched s')"
      if "wstates s' v = Linking x ls" for v x ls
      using that ws uf u(1) by (auto split: if_splits)
    show "e \<in> set (urlQueue s) \<or> origin seeds s' e" if "e \<in> set (urlQueue s')" for e
      using that by (rule q)
    show "set (seeds_left s') \<subseteq> set (seeds_left s)" by (simp add: u(3))
  qed
next
  case Cancel
  with assms(2) have "s' = s\<lparr>cancelled := True\<rparr>" by (simp add: step_def split: if_splits)
  then show ?thesis by (intro depth_inv_keep [OF inv]) auto
next
  case (Exit w)
  with assms(2) have "exit_step w s = Some s'" by (simp add: step_def split: if_splits)
  from exit_step_frame [OF this] have u: "wstates s w = Idle"
    "wstates s' = (wstates s)(w := Stopped)" "fetched s' = fetched s"
    "urlQueue s' = urlQueue s" "seeds_left s' = seeds_left s"
    by auto
  show ?thesis
    by (intro depth_inv_keep [OF inv]) (auto simp: u(2,3,4,5) split: if_splits)
qed

lemma depth_inv_run:
  "depth_inv fl seeds s \<Longrightarrow> run lib fl evs s = Some s' \<Longrightarrow> depth_inv fl seeds s'"
proof (induction evs arbitrary: s)
  case Nil
  then show ?case by simp
next
  case (Cons e evs)
  from Cons.prems(2) obtain s1 where s1: "step lib fl e s = Some s1" "run lib fl evs s1 = Some s'"
    by (auto split: option.splits)
  from Cons.IH [OF depth_inv_step [OF Cons.prems(1) s1(1)] s1(2)] show ?case .
qed

lemma map_option_SomeD: "map_option f x = Some y \<Longrightarrow> \<exists>z. x = Some z \<and> f z = y"
  by (cases x) auto

text \<open>
  C7. In every run, whatever the interleaving of the workers, no URL is passed to
  \<open>enhancedFetchAndParse\<close> twice, and every fetched URL is in the seen set. A worker that
  holds a dequeued entry whose URL is already in the seen set returns to its \<open>select\<close>
  without fetching; one whose (non-empty) URL is new claims it.
\<close>

theorem C7_url_fetched_at_most_once:
  assumes "run lib fl evs (init seeds) = Some s"
  shows "distinct (map um_URL (fetched s))
         \<and> um_URL ` set (fetched s) \<subseteq> seen s
         \<and> (\<forall>w u. w < workers fl \<and> \<not> crashed s \<and> wstates s w = Got u \<and> um_URL u \<in> seen s
                \<longrightarrow> step lib fl (Claim w) s = Some (set_w w Idle s))
         \<and> (\<forall>w u. w < workers fl \<and> \<not> crashed s \<and> wstates s w = Got u \<and> um_URL u \<noteq> []
                  \<and> um_URL u \<notin> seen s
                \<longrightarrow> step lib fl (Claim w) s
                      = Some (set_w w (Claimed u) (s\<lparr>seen := insert (um_URL u) (seen s)\<rparr>)))"
proof -
  have "dedupe_inv s"
    using dedupe_inv_run [OF dedupe_inv_init assms] .
  then have "distinct (map um_URL (fetched s))" "um_URL ` set (fetched s) \<subseteq> seen s"
    unfolding dedupe_inv_def by blast+
  then show ?thesis
    by (simp add: step_def of_worker_def claim_step_def)
qed

theorem C7_url_fetched_at_most_once_witness:
  "\<exists>s. run demo_lib default_flags dedupe_events (init dedupe_seeds) = Some s
       \<and> map um_URL (fetched s) = [''http://a.test/'']
       \<and> wstates s 0 = Got blog_seed \<and> wstates s 1 = Got seed_entry
       \<and> distinct (map um_URL (fetched s))
       \<and> um_URL ` set (fetched s) \<subseteq> seen s
       \<and> step demo_lib default_flags (Claim 1) s = Some (set_w 1 Idle s)
       \<and> step demo_lib default_flags (Claim 0) s
           = Some (set_w 0 (Claimed blog_seed) (s\<lparr>seen := insert (um_URL blog_seed) (seen s)\<rparr>))"
proof -
  have "map_option (\<lambda>s. (map um_URL (fetched s), crashed s, wstates s 0, wstates s 1,
                 ''http://a.test/'' \<in> seen s, ''http://a.test/blog'' \<in> seen s))
          (run demo_lib default_flags dedupe_events (init dedupe_seeds))
        = Some ([''http://a.test/''], False, Got blog_seed, Got seed_entry, True, False)"
    by code_simp
  from map_option_SomeD [OF this] obtain s
    where "run demo_lib default_flags dedupe_events (init dedupe_seeds) = Some s
       \<and> (map um_URL (fetched s), crashed s, wstates s 0, wstates s 1,
                 ''http://a.test/'' \<in> seen s, ''http://a.test/blog'' \<in> seen s)
           = ([''http://a.test/''], False, Got blog_seed, Got seed_entry, True, False)" ..
  then have s: "run demo_lib default_flags dedupe_events (init dedupe_seeds) = Some s"
    and f: "map um_URL (fetched s) = [''http://a.test/'']"
    and c: "\<not> crashed s"
    and w0: "wstates s 0 = Got blog_seed" and w1: "wstates s 1 = Got seed_entry"
    and a: "''http://a.test/'' \<in> seen s" and b: "''http://a.test/blog'' \<notin> seen s"
    by (simp_all only: prod.inject simp_thms)
  note t = C7_url_fetched_at_most_once [OF s]
  have d: "distinct (map um_URL (fetched s))" and sub: "um_URL ` set (fetched s) \<subseteq> seen s"
    and skip: "\<forall>w u. w < workers default_flags \<and> \<not> crashed s \<and> wstates s w = Got u
                  \<and> um_URL u \<in> seen s
                \<longrightarrow> step demo_lib default_flags (Claim w) s = Some (set_w w Idle s)"
    and claim: "\<forall>w u. w < workers default_flags \<and> \<not> crashed s \<and> wstates s w = Got u
                  \<and> um_URL u \<noteq> [] \<and> um_URL u \<notin> seen s
                \<longrightarrow> step demo_lib default_flags (Claim w) s
                      = Some (set_w w (Claimed u) (s\<lparr>seen := insert (um_URL u) (seen s)\<rparr>))"
    using t by blast+
  have n: "(1::nat) < workers default_flags" "(0::nat) < workers default_flags"
    by (simp_all add: default_flags_def)
  have ua: "um_URL seed_entry = ''http://a.test/''" by (simp add: seed_entry_def)
  have ub: "um_URL blog_seed = ''http://a.test/blog''" by (simp add: blog_seed_def)
  have s1: "step demo_lib default_flags (Claim 1) s = Some (set_w 1 Idle s)"
    using skip n(1) c w1 a ua by metis
  have s0: "step demo_lib default_flags (Claim 0) s
           = Some (set_w 0 (Claimed blog_seed) (s\<lparr>seen := insert (um_URL blog_seed) (seen s)\<rparr>))"
  proof -
    have "um_URL blog_seed \<noteq> []" "um_URL blog_seed \<notin> seen s" using b by (simp_all add: ub)
    with claim n(2) c w0 show ?thesis by metis
  qed
  show ?thesis
    by (rule exI [where x = s])
      (rule conjI [OF s conjI [OF f conjI [OF w0 conjI [OF w1 conjI [OF d conjI
         [OF sub conjI [OF s1 s0]]]]]]])
qed

text \<open>
  C8. In every run, every entry passed to \<open>enhancedFetchAndParse\<close> has a depth of at most
  \<open>max-depth\<close>: a worker drops a claimed entry that is deeper before it fetches. Every
  entry of the queue is a seed at depth 0 or a link of a fetched page, enqueued with that
  page's depth plus one (no overflow can occur when \<open>max-depth\<close> is below the largest
  \<open>int\<close>).
\<close>

theorem C8_depth_bound:
  assumes "run lib fl evs (init seeds) = Some s"
  shows "(\<forall>u \<in> set (fetched s). sint (depth (um_Metadata u)) \<le> sint (maxDepth fl))
         \<and> (\<forall>w u d l. w < workers fl \<and> \<not> crashed s \<and> wstates s w = Claimed u
                  \<and> sint (maxDepth fl) < sint (depth (um_Metadata u))
                \<longrightarrow> step lib fl (Admit w d l) s = Some (set_w w Idle s))
         \<and> (\<forall>e \<in> set (urlQueue s).
               (um_URL e \<in> set seeds \<and> depth (um_Metadata e) = 0)
               \<or> (\<exists>p \<in> set (fetched s). parent (um_Metadata e) = um_URL p
                      \<and> depth (um_Metadata e) = depth (um_Metadata p) + 1
                      \<and> (sint (maxDepth fl) < 2 ^ 63 - 1 \<longrightarrow>
                            sint (depth (um_Metadata e)) = sint (depth (um_Metadata p)) + 1)))"
proof -
  have inv: "depth_inv fl seeds s"
    using depth_inv_run [OF depth_inv_init assms] .
  then have 1: "\<forall>u \<in> set (fetched s). sint (depth (um_Metadata u)) \<le> sint (maxDepth fl)"
    unfolding depth_inv_def by blast
  have 2: "\<forall>w u d l. w < workers fl \<and> \<not> crashed s \<and> wstates s w = Claimed u
                  \<and> sint (maxDepth fl) < sint (depth (um_Metadata u))
                \<longrightarrow> step lib fl (Admit w d l) s = Some (set_w w Idle s)"
    by (simp add: step_def of_worker_def admit_step_def word_sless_alt)
  have 3: "(um_URL e \<in> set seeds \<and> depth (um_Metadata e) = 0)
               \<or> (\<exists>p \<in> set (fetched s). parent (um_Metadata e) = um_URL p
                      \<and> depth (um_Metadata e) = depth (um_Metadata p) + 1
                      \<and> (sint (maxDepth fl) < 2 ^ 63 - 1 \<longrightarrow>
                            sint (depth (um_Metadata e)) = sint (depth (um_Metadata p)) + 1))"
    if "e \<in> set (urlQueue s)" for e
  proof -
    from inv that have "origin seeds s e" unfolding depth_inv_def by blast
    then show ?thesis
      unfolding origin_def
    proof
      assume "um_URL e \<in> set seeds \<and> depth (um_Metadata e) = 0"
      then show ?thesis by blast
    next
      assume "\<exists>p \<in> set (fetched s). parent (um_Metadata e) = um_URL p
                \<and> depth (um_Metadata e) = depth (um_Metadata p) + 1"
      then obtain p where p: "p \<in> set (fetched s)" "parent (um_Metadata e) = um_URL p"
        "depth (um_Metadata e) = depth (um_Metadata p) + 1"
        by blast
      have "sint (depth (um_Metadata e)) = sint (depth (um_Metadata p)) + 1"
        if "sint (maxDepth fl) < 2 ^ 63 - 1"
      proof -
        from 1 p(1) that have "sint (depth (um_Metadata p)) < 2 ^ 63 - 1" by fastforce
        then show ?thesis unfolding p(3) by (rule sint_succ)
      qed
      with p show ?thesis by blast
    qed
  qed
  from 1 2 3 show ?thesis by blast
qed

theorem C8_depth_bound_witness:
  "\<exists>s. run demo_lib shallow_flags deep_events (init [''http://a.test/'']) = Some s
       \<and> fetched s = [seed_entry] \<and> urlQueue s = [news_child]
       \<and> wstates s 0 = Claimed blog_child
       \<and> sint (depth (um_Metadata seed_entry)) \<le> sint (maxDepth shallow_flags)
       \<and> step demo_lib shallow_flags (Admit 0 False False) s = Some (set_w 0 Idle s)
       \<and> parent (um_Metadata news_child) = um_URL seed_entry
       \<and> depth (um_Metadata news_child) = depth (um_Metadata seed_entry) + 1
       \<and> sint (depth (um_Metadata news_child)) = sint (depth (um_Metadata seed_entry)) + 1"
proof -
  have "map_option (\<lambda>s. (fetched s, urlQueue s, wstates s 0, crashed s))
          (run demo_lib shallow_flags deep_events (init [''http://a.test/'']))
        = Some ([seed_entry], [news_child], Claimed blog_child, False)"
    by code_simp
  from map_option_SomeD [OF this] obtain s
    where "run demo_lib shallow_flags deep_events (init [''http://a.test/'']) = Some s
       \<and> (fetched s, urlQueue s, wstates s 0, crashed s)
           = ([seed_entry], [news_child], Claimed blog_child, False)" ..
  then have s: "run demo_lib shallow_flags deep_events (init [''http://a.test/'']) = Some s"
    and f: "fetched s = [seed_entry]" and q: "urlQueue s = [news_child]"
    and w0: "wstates s 0 = Claimed blog_child" and c: "\<not> crashed s"
    by (simp_all only: prod.inject simp_thms)
  note t = C8_depth_bound [OF s]
  have b: "\<forall>u \<in> set (fetched s). sint (depth (um_Metadata u)) \<le> sint (maxDepth shallow_flags)"
    and drop: "\<forall>w u d l. w < workers shallow_flags \<and> \<not> crashed s \<and> wstates s w = Claimed u
                  \<and> sint (maxDepth shallow_flags) < sint (depth (um_Metadata u))
                \<longrightarrow> step demo_lib shallow_flags (Admit w d l) s = Some (set_w w Idle s)"
    and o: "\<forall>e \<in> set (urlQueue s).
               (um_URL e \<in> set [''http://a.test/''] \<and> depth (um_Metadata e) = 0)
               \<or> (\<exists>p \<in> set (fetched s). parent (um_Metadata e) = um_URL p
                      \<and> depth (um_Metadata e) = depth (um_Metadata p) + 1
                      \<and> (sint (maxDepth shallow_flags) < 2 ^ 63 - 1 \<longrightarrow>
                            sint (depth (um_Metadata e)) = sint (depth (um_Metadata p)) + 1))"
    using t by blast+
  have 1: "sint (depth (um_Metadata seed_entry)) \<le> sint (maxDepth shallow_flags)"
    using b unfolding f by simp
  have n: "(0::nat) < workers shallow_flags"
    by (simp add: shallow_flags_def default_flags_def)
  have deep: "sint (maxDepth shallow_flags) < sint (depth (um_Metadata blog_child))"
    by (simp add: shallow_flags_def default_flags_def blog_child_def)
  have 2: "step demo_lib shallow_flags (Admit 0 False False) s = Some (set_w 0 Idle s)"
    using drop n c w0 deep by metis
  have m: "sint (maxDepth shallow_flags) < 2 ^ 63 - 1"
    by (simp add: shallow_flags_def default_flags_def)
  have nz: "depth (um_Metadata news_child) \<noteq> 0" by (simp add: news_child_def)
  from o have "(um_URL news_child \<in> set [''http://a.test/''] \<and> depth (um_Metadata news_child) = 0)
               \<or> (parent (um_Metadata news_child) = um_URL seed_entry
                      \<and> depth (um_Metadata news_child) = depth (um_Metadata seed_entry) + 1
                      \<and> (sint (maxDepth shallow_flags) < 2 ^ 63 - 1 \<longrightarrow>
                            sint (depth (um_Metadata news_child))
                              = sint (depth (um_Metadata seed_entry)) + 1))"
    unfolding q f by simp
  with nz m have 3: "parent (um_Metadata news_child) = um_URL seed_entry
       \<and> depth (um_Metadata news_child) = depth (um_Metadata seed_entry) + 1
       \<and> sint (depth (um_Metadata news_child)) = sint (depth (um_Metadata seed_entry)) + 1"
    by blast
  show ?thesis
    by (rule exI [where x = s])
      (rule conjI [OF s conjI [OF f conjI [OF q conjI [OF w0 conjI [OF 1 conjI [OF 2 3]]]]]])
qed

subsection \<open>Responses other than 200\<close>

text \<open>
  C6. When the response status is outside 200..299, \<open>enhancedFetchAndParse\<close> returns no
  error, no links, and a Document that carries the URL, the fetch time, the status, the
  response headers (every header that has a value, with its first value, and no other),
  the content type and the declared size, with every content field empty: no title, text,
  clean text, content hash, chunks, links or media, zero word count and zero dream hints.
  The worker then counts a page, leaves the error counter as it is, and emits that
  Document.
\<close>

theorem C6_non_2xx_is_not_an_error:
  assumes "\<not> (200 \<le> resp_StatusCode resp \<and> resp_StatusCode resp \<le> 299)"
    and "w < workers fl" and "\<not> crashed s" and "wstates s w = Ready urlMeta"
  shows "\<exists>doc. enhancedFetchAndParse lib (Responded resp) now (um_URL urlMeta)
                 (um_Metadata urlMeta) = Some (doc, [], None)
            \<and> doc_URL doc = um_URL urlMeta \<and> doc_FetchedAt doc = now
            \<and> doc_Status doc = resp_StatusCode resp
            \<and> meta_Headers (doc_Metadata doc)
                = (\<lambda>key. case resp_Header resp key of
                            None \<Rightarrow> None | Some [] \<Rightarrow> None | Some (v # vs) \<Rightarrow> Some v)
            \<and> meta_ContentType (doc_Metadata doc)
                = (case resp_Header resp ''Content-Type'' of
                     None \<Rightarrow> [] | Some [] \<Rightarrow> [] | Some (v # vs) \<Rightarrow> v)
            \<and> meta_Size (doc_Metadata doc) = resp_ContentLength resp
            \<and> doc_Title doc = [] \<and> doc_Text doc = [] \<and> doc_CleanText doc = []
            \<and> doc_ContentHash doc = []
            \<and> doc_Chunks doc = [] \<and> doc_Links doc = [] \<and> doc_Media doc = []
            \<and> meta_WordCount (doc_Metadata doc) = 0
            \<and> doc_DreamHints doc
                = \<lparr>Emotions = [], Themes = [], Motifs = [], Tone = [], Complexity = 0,
                   Surrealism = 0, VisualCues = [], AudioCues = [], ColorPalette = [],
                   Abstractness = 0\<rparr>
            \<and> (\<exists>s'. step lib fl (Fetch w (Responded resp) now) s = Some s'
                   \<and> rawOut s' = rawOut s @ [doc]
                   \<and> Errors (stats s') = Errors (stats s)
                   \<and> PagesProcessed (stats s') = PagesProcessed (stats s) + 1
                   \<and> fetched s' = fetched s @ [urlMeta])"
proof -
  define doc where "doc = zero_Document
                 \<lparr>doc_URL := um_URL urlMeta,
                  doc_FetchedAt := now,
                  doc_Status := resp_StatusCode resp,
                  doc_Metadata := zero_DocumentMetadata
                    \<lparr>meta_Headers := first_values (resp_Header resp),
                     meta_ContentType := Header_Get (resp_Header resp) ''Content-Type'',
                     meta_Size := resp_ContentLength resp\<rparr>\<rparr>"
  have ne: "resp_StatusCode resp \<noteq> 200" using assms(1) by auto
  have f: "enhancedFetchAndParse lib (Responded resp) now (um_URL urlMeta) (um_Metadata urlMeta)
             = Some (doc, [], None)"
    using ne by (simp add: enhancedFetchAndParse_def Let_def doc_def)
  have h: "meta_Headers (doc_Metadata doc)
             = (\<lambda>key. case resp_Header resp key of
                         None \<Rightarrow> None | Some [] \<Rightarrow> None | Some (v # vs) \<Rightarrow> Some v)"
    by (simp add: doc_def first_values_def)
  have c: "meta_ContentType (doc_Metadata doc)
             = (case resp_Header resp ''Content-Type'' of
                  None \<Rightarrow> [] | Some [] \<Rightarrow> [] | Some (v # vs) \<Rightarrow> v)"
    by (simp add: doc_def Header_Get_def)
  have z: "doc_URL doc = um_URL urlMeta \<and> doc_FetchedAt doc = now
            \<and> doc_Status doc = resp_StatusCode resp"
    "meta_Size (doc_Metadata doc) = resp_ContentLength resp
            \<and> doc_Title doc = [] \<and> doc_Text doc = [] \<and> doc_CleanText doc = []
            \<and> doc_ContentHash doc = []
            \<and> doc_Chunks doc = [] \<and> doc_Links doc = [] \<and> doc_Media doc = []
            \<and> meta_WordCount (doc_Metadata doc) = 0
            \<and> doc_DreamHints doc
                = \<lparr>Emotions = [], Themes = [], Motifs = [], Tone = [], Complexity = 0,
                   Surrealism = 0, VisualCues = [], AudioCues = [], ColorPalette = [],
                   Abstractness = 0\<rparr>"
    by (simp_all add: doc_def zero_Document_def zero_DocumentMetadata_def
        zero_DreamingHints_def)
  have st: "\<exists>s'. step lib fl (Fetch w (Responded resp) now) s = Some s'
                   \<and> rawOut s' = rawOut s @ [doc]
                   \<and> Errors (stats s') = Errors (stats s)
                   \<and> PagesProcessed (stats s') = PagesProcessed (stats s) + 1
                   \<and> fetched s' = fetched s @ [urlMeta]"
    using assms(2,3,4)
    by (simp add: step_def of_worker_def fetch_step_def f Let_def IncrementPages_def AddBytes_def)
  from f z h c st show ?thesis by blast
qed

theorem C6_non_2xx_is_not_an_error_witness:
  "\<not> (200 \<le> resp_StatusCode not_found \<and> resp_StatusCode not_found \<le> 299)
   \<and> 0 < workers default_flags \<and> \<not> crashed demo_ready
   \<and> wstates demo_ready 0 = Ready seed_entry
   \<and> resp_Header not_found ''Content-Type'' = Some [''text/plain'']
   \<and> (\<exists>doc. enhancedFetchAndParse demo_lib (Responded not_found) demo_now (um_URL seed_entry)
                 (um_Metadata seed_entry) = Some (doc, [], None)
            \<and> doc_URL doc = um_URL seed_entry \<and> doc_FetchedAt doc = demo_now
            \<and> doc_Status doc = resp_StatusCode not_found
            \<and> meta_Headers (doc_Metadata doc)
                = (\<lambda>key. case resp_Header not_found key of
                            None \<Rightarrow> None | Some [] \<Rightarrow> None | Some (v # vs) \<Rightarrow> Some v)
            \<and> meta_ContentType (doc_Metadata doc)
                = (case resp_Header not_found ''Content-Type'' of
                     None \<Rightarrow> [] | Some [] \<Rightarrow> [] | Some (v # vs) \<Rightarrow> v)
            \<and> meta_Size (doc_Metadata doc) = resp_ContentLength not_found
            \<and> doc_Title doc = [] \<and> doc_Text doc = [] \<and> doc_CleanText doc = []
            \<and> doc_ContentHash doc = []
            \<and> doc_Chunks doc = [] \<and> doc_Links doc = [] \<and> doc_Media doc = []
            \<and> meta_WordCount (doc_Metadata doc) = 0
            \<and> doc_DreamHints doc
                = \<lparr>Emotions = [], Themes = [], Motifs = [], Tone = [], Complexity = 0,
                   Surrealism = 0, VisualCues = [], AudioCues = [], ColorPalette = [],
                   Abstractness = 0\<rparr>
            \<and> (\<exists>s'. step demo_lib default_flags (Fetch 0 (Responded not_found) demo_now)
                        demo_ready = Some s'
                   \<and> rawOut s' = rawOut demo_ready @ [doc]
                   \<and> Errors (stats s') = Errors (stats demo_ready)
                   \<and> PagesProcessed (stats s') = PagesProcessed (stats demo_ready) + 1
                   \<and> fetched s' = fetched demo_ready @ [seed_entry]))"
proof -
  have h1: "\<not> (200 \<le> resp_StatusCode not_found \<and> resp_StatusCode not_found \<le> 299)"
    by (simp add: not_found_def)
  have h2: "0 < workers default_flags"
    by (simp add: default_flags_def)
  have h3: "\<not> crashed demo_ready"
    by (simp add: demo_ready_def set_w_def init_def)
  have h4: "wstates demo_ready 0 = Ready seed_entry"
    by (simp add: demo_ready_def set_w_def)
  have h5: "resp_Header not_found ''Content-Type'' = Some [''text/plain'']"
    by (simp add: not_found_def)
  show ?thesis
    by (rule conjI [OF h1 conjI [OF h2 conjI [OF h3 conjI [OF h4 conjI
          [OF h5 C6_non_2xx_is_not_an_error [OF h1 h2 h3 h4]]]]]])
qed

end
